theory Spec2Isabelle
  imports Complex_Main
begin

section \<open>Python values and exceptions\<close>

text \<open>
  The program is Python. The values it handles are the objects that \<^verbatim>\<open>json.loads\<close>
  builds from the report of the probe tool, and the defaults the code supplies itself
  (\<^verbatim>\<open>0\<close>, \<^verbatim>\<open>''\<close>, \<^verbatim>\<open>'Unknown'\<close>, \<^verbatim>\<open>False\<close>, \<^verbatim>\<open>None\<close>, \<^verbatim>\<open>{}\<close>, \<^verbatim>\<open>[]\<close>): one datatype
  \<open>pyval\<close> holds them all. A dictionary of the document is an association list with
  string keys, read with \<open>map_of\<close>.

  A Python float is a finite number, an infinity or NaN. Finite floats are modelled as
  rationals with exact arithmetic: the rounding of IEEE doubles and their overflow are
  not part of the model.
\<close>

datatype pyfloat = Fin rat | PInf | NInf | NaN

datatype pyval =
    PNone
  | PBool bool
  | PInt int
  | PFloat pyfloat
  | PStr string
  | PList "pyval list"
  | PDict "(string \<times> pyval) list"

text \<open>
  Exceptions are values. The two exceptions the program raises with a message of its own
  (\<^verbatim>\<open>RuntimeError\<close>, \<^verbatim>\<open>QueryError\<close>) and \<^verbatim>\<open>FileNotFoundError\<close> carry it; the built-in
  ones raised by the interpreter carry none. \<open>OtherException\<close> stands for an exception of
  any other class and carries the name of the class.
\<close>

datatype pyerr =
    ValueError
  | TypeError
  | AttributeError
  | OverflowError
  | ZeroDivisionError
  | JSONDecodeError
  | RuntimeError string
  | QueryError string
  | FileNotFoundError string
  | OtherException string


section \<open>Operations of the Python runtime\<close>

text \<open>Sequencing of computations that may raise: the first exception ends the computation.\<close>

fun ebind :: "pyerr + 'a \<Rightarrow> ('a \<Rightarrow> pyerr + 'b) \<Rightarrow> pyerr + 'b" where
  "ebind (Inl e) f = Inl e"
| "ebind (Inr x) f = f x"

text \<open>
  \<^verbatim>\<open>d.get(k, default)\<close>. Only a dictionary has the method: on any other object the
  attribute lookup raises \<^verbatim>\<open>AttributeError\<close>.
\<close>

definition dict_get :: "pyval \<Rightarrow> string \<Rightarrow> pyval \<Rightarrow> pyerr + pyval" where
  "dict_get d k dflt =
     (case d of
        PDict kvs \<Rightarrow> Inr (case map_of kvs k of None \<Rightarrow> dflt | Some v \<Rightarrow> v)
      | _ \<Rightarrow> Inl AttributeError)"

text \<open>Truth value of an object, as \<^verbatim>\<open>if x\<close> and \<^verbatim>\<open>not x\<close> test it. NaN is true.\<close>

fun py_truthy :: "pyval \<Rightarrow> bool" where
  "py_truthy PNone = False"
| "py_truthy (PBool b) = b"
| "py_truthy (PInt n) = (n \<noteq> 0)"
| "py_truthy (PFloat (Fin r)) = (r \<noteq> 0)"
| "py_truthy (PFloat _) = True"
| "py_truthy (PStr s) = (s \<noteq> [])"
| "py_truthy (PList xs) = (xs \<noteq> [])"
| "py_truthy (PDict kvs) = (kvs \<noteq> [])"

subsection \<open>Dictionaries keyed by arbitrary objects\<close>

text \<open>
  The track dictionaries are keyed by whatever the document gives as a stream's
  \<^verbatim>\<open>index\<close>. A list or a dictionary is not hashable: using one as a key raises
  \<^verbatim>\<open>TypeError\<close>. Keys are compared as Python compares them: \<^verbatim>\<open>True\<close>, \<^verbatim>\<open>1\<close> and \<^verbatim>\<open>1.0\<close>
  are one key. (\<^verbatim>\<open>json.loads\<close> returns one shared NaN object, which a dictionary finds by
  identity, so NaN is a key equal to itself here.)
  A dictionary is an association list in insertion order with pairwise different keys;
  assigning to a key that is present replaces the item's content and keeps its place.
\<close>

fun hashable :: "pyval \<Rightarrow> bool" where
  "hashable (PList xs) = False"
| "hashable (PDict kvs) = False"
| "hashable v = True"

fun num_of :: "pyval \<Rightarrow> pyfloat option" where
  "num_of (PBool b) = Some (Fin (if b then 1 else 0))"
| "num_of (PInt n) = Some (Fin (of_int n))"
| "num_of (PFloat f) = Some f"
| "num_of v = None"

definition py_key_eq :: "pyval \<Rightarrow> pyval \<Rightarrow> bool" where
  "py_key_eq a b =
     (case (num_of a, num_of b) of
        (Some x, Some y) \<Rightarrow> x = y
      | (None, None) \<Rightarrow> a = b
      | _ \<Rightarrow> False)"

type_synonym 'v pydict = "(pyval \<times> 'v) list"

fun pd_lookup :: "'v pydict \<Rightarrow> pyval \<Rightarrow> 'v option" where
  "pd_lookup [] k = None"
| "pd_lookup ((k', v) # d) k = (if py_key_eq k' k then Some v else pd_lookup d k)"

text \<open>\<^verbatim>\<open>k in d\<close>\<close>

definition pd_contains :: "'v pydict \<Rightarrow> pyval \<Rightarrow> pyerr + bool" where
  "pd_contains d k = (if hashable k then Inr (pd_lookup d k \<noteq> None) else Inl TypeError)"

fun pd_update :: "'v pydict \<Rightarrow> pyval \<Rightarrow> 'v \<Rightarrow> 'v pydict" where
  "pd_update [] k v = [(k, v)]"
| "pd_update ((k', v') # d) k v =
     (if py_key_eq k' k then (k', v) # d else (k', v') # pd_update d k v)"

text \<open>\<^verbatim>\<open>d[k] = v\<close>\<close>

definition pd_set :: "'v pydict \<Rightarrow> pyval \<Rightarrow> 'v \<Rightarrow> pyerr + 'v pydict" where
  "pd_set d k v = (if hashable k then Inr (pd_update d k v) else Inl TypeError)"

subsection \<open>Numbers from strings\<close>

text \<open>
  \<^verbatim>\<open>int(s)\<close> and \<^verbatim>\<open>float(s)\<close> on a string: surrounding white space is dropped, a sign may
  come first, digits may be grouped by single underscores. \<^verbatim>\<open>float\<close> also reads a
  fraction, an exponent, and the names \<^verbatim>\<open>inf\<close>, \<^verbatim>\<open>infinity\<close> and \<^verbatim>\<open>nan\<close> in any case.
  Strings are ASCII here: the digits and spaces of other scripts are not modelled.
\<close>

definition is_space :: "char \<Rightarrow> bool" where
  "is_space c = (c \<in> set [CHR '' '', CHR 0x09, CHR 0x0A, CHR 0x0B, CHR 0x0C, CHR 0x0D,
                           CHR 0x1C, CHR 0x1D, CHR 0x1E, CHR 0x1F])"

definition strip :: "string \<Rightarrow> string" where
  "strip s = rev (dropWhile is_space (rev (dropWhile is_space s)))"

definition is_digit :: "char \<Rightarrow> bool" where
  "is_digit c = (c \<in> set ''0123456789'')"

definition digit_val :: "char \<Rightarrow> nat" where
  "digit_val c = of_char c - 48"

definition nat_of_digits :: "string \<Rightarrow> nat" where
  "nat_of_digits ds = foldl (\<lambda>a c. 10 * a + digit_val c) 0 ds"

text \<open>
  A run of digits with single underscores between digits; the result is the digits
  alone, \<open>None\<close> when the string is not of that form.
\<close>

fun digit_groups :: "string \<Rightarrow> string option" where
  "digit_groups [] = None"
| "digit_groups [c] = (if is_digit c then Some [c] else None)"
| "digit_groups (c # d # cs) =
     (if is_digit c then
        (if d = CHR ''_'' then map_option ((#) c) (digit_groups cs)
         else map_option ((#) c) (digit_groups (d # cs)))
      else None)"

text \<open>The sign of a literal and the rest of it.\<close>

fun split_sign :: "string \<Rightarrow> bool \<times> string" where
  "split_sign [] = (False, [])"
| "split_sign (c # cs) =
     (if c = CHR ''-'' then (True, cs) else if c = CHR ''+'' then (False, cs) else (False, c # cs))"

definition int_of_str :: "string \<Rightarrow> pyerr + int" where
  "int_of_str s =
     (case split_sign (strip s) of (neg, u) \<Rightarrow>
        (case digit_groups u of
           None \<Rightarrow> Inl ValueError
         | Some ds \<Rightarrow> Inr (if neg then - int (nat_of_digits ds) else int (nat_of_digits ds))))"

text \<open>\<open>split_at c s\<close>: the part of \<open>s\<close> before the first \<open>c\<close>, and the part after it if there is one.\<close>

fun split_at :: "(char \<Rightarrow> bool) \<Rightarrow> string \<Rightarrow> string \<times> string option" where
  "split_at P [] = ([], None)"
| "split_at P (c # cs) =
     (if P c then ([], Some cs)
      else (case split_at P cs of (a, b) \<Rightarrow> (c # a, b)))"

definition lower_char :: "char \<Rightarrow> char" where
  "lower_char c =
     (case map_of (zip ''ABCDEFGHIJKLMNOPQRSTUVWXYZ'' ''abcdefghijklmnopqrstuvwxyz'') c of
        Some l \<Rightarrow> l
      | None \<Rightarrow> c)"

text \<open>
  The mantissa of a decimal literal: digits, a point, digits, with at least one digit on
  one side of the point.
\<close>

definition mantissa_of :: "string \<Rightarrow> rat option" where
  "mantissa_of m =
     (case split_at (\<lambda>c. c = CHR ''.'') m of
        (ip, None) \<Rightarrow> map_option (\<lambda>ds. of_nat (nat_of_digits ds)) (digit_groups ip)
      | (ip, Some fp) \<Rightarrow>
          (if ip = [] then
             map_option (\<lambda>fs. of_nat (nat_of_digits fs) / 10 ^ length fs) (digit_groups fp)
           else if fp = [] then
             map_option (\<lambda>ds. of_nat (nat_of_digits ds)) (digit_groups ip)
           else
             (case (digit_groups ip, digit_groups fp) of
                (Some ds, Some fs) \<Rightarrow>
                  Some (of_nat (nat_of_digits ds) + of_nat (nat_of_digits fs) / 10 ^ length fs)
              | _ \<Rightarrow> None)))"

definition exponent_of :: "string \<Rightarrow> int option" where
  "exponent_of e =
     (case split_sign e of (neg, u) \<Rightarrow>
        map_option (\<lambda>ds. if neg then - int (nat_of_digits ds) else int (nat_of_digits ds))
          (digit_groups u))"

definition decimal_of :: "string \<Rightarrow> rat option" where
  "decimal_of u =
     (case split_at (\<lambda>c. c = CHR ''e'' \<or> c = CHR ''E'') u of
        (m, None) \<Rightarrow> mantissa_of m
      | (m, Some e) \<Rightarrow>
          (case (mantissa_of m, exponent_of e) of
             (Some r, Some x) \<Rightarrow> Some (if 0 \<le> x then r * 10 ^ nat x else r / 10 ^ nat (- x))
           | _ \<Rightarrow> None))"

definition float_of_str :: "string \<Rightarrow> pyerr + pyfloat" where
  "float_of_str s =
     (case split_sign (strip s) of (neg, u) \<Rightarrow>
        (if map lower_char u = ''inf'' \<or> map lower_char u = ''infinity''
           then Inr (if neg then NInf else PInf)
         else if map lower_char u = ''nan'' then Inr NaN
         else (case decimal_of u of
                 None \<Rightarrow> Inl ValueError
               | Some r \<Rightarrow> Inr (Fin (if neg then - r else r)))))"

subsection \<open>Conversions and float arithmetic\<close>

text \<open>\<^verbatim>\<open>int(x)\<close>: a float is truncated towards zero.\<close>

fun py_int :: "pyval \<Rightarrow> pyerr + int" where
  "py_int (PInt n) = Inr n"
| "py_int (PBool b) = Inr (if b then 1 else 0)"
| "py_int (PFloat (Fin r)) = Inr (if 0 \<le> r then \<lfloor>r\<rfloor> else \<lceil>r\<rceil>)"
| "py_int (PFloat NaN) = Inl ValueError"
| "py_int (PFloat _) = Inl OverflowError"
| "py_int (PStr s) = int_of_str s"
| "py_int _ = Inl TypeError"

text \<open>\<^verbatim>\<open>float(x)\<close>\<close>

fun py_float :: "pyval \<Rightarrow> pyerr + pyfloat" where
  "py_float (PInt n) = Inr (Fin (of_int n))"
| "py_float (PBool b) = Inr (Fin (if b then 1 else 0))"
| "py_float (PFloat f) = Inr f"
| "py_float (PStr s) = float_of_str s"
| "py_float _ = Inl TypeError"

text \<open>Multiplication and addition of floats, with the IEEE rules for infinities and NaN.\<close>

fun fl_mul :: "pyfloat \<Rightarrow> pyfloat \<Rightarrow> pyfloat" where
  "fl_mul (Fin a) (Fin b) = Fin (a * b)"
| "fl_mul NaN y = NaN"
| "fl_mul x NaN = NaN"
| "fl_mul (Fin a) PInf = (if a = 0 then NaN else if 0 < a then PInf else NInf)"
| "fl_mul (Fin a) NInf = (if a = 0 then NaN else if 0 < a then NInf else PInf)"
| "fl_mul PInf (Fin b) = (if b = 0 then NaN else if 0 < b then PInf else NInf)"
| "fl_mul NInf (Fin b) = (if b = 0 then NaN else if 0 < b then NInf else PInf)"
| "fl_mul PInf PInf = PInf"
| "fl_mul NInf NInf = PInf"
| "fl_mul PInf NInf = NInf"
| "fl_mul NInf PInf = NInf"

fun fl_add :: "pyfloat \<Rightarrow> pyfloat \<Rightarrow> pyfloat" where
  "fl_add (Fin a) (Fin b) = Fin (a + b)"
| "fl_add NaN y = NaN"
| "fl_add x NaN = NaN"
| "fl_add PInf NInf = NaN"
| "fl_add NInf PInf = NaN"
| "fl_add PInf y = PInf"
| "fl_add NInf y = NInf"
| "fl_add x PInf = PInf"
| "fl_add x NInf = NInf"

text \<open>
  \<^verbatim>\<open>n / d\<close> for an integer \<open>n\<close> and a number \<open>d\<close>: true division. A zero divisor raises
  \<^verbatim>\<open>ZeroDivisionError\<close>.
\<close>

fun py_truediv :: "int \<Rightarrow> pyval \<Rightarrow> pyerr + pyfloat" where
  "py_truediv n (PFloat (Fin r)) = (if r = 0 then Inl ZeroDivisionError else Inr (Fin (of_int n / r)))"
| "py_truediv n (PFloat NaN) = Inr NaN"
| "py_truediv n (PFloat _) = Inr (Fin 0)"
| "py_truediv n (PInt d) = (if d = 0 then Inl ZeroDivisionError else Inr (Fin (of_int n / of_int d)))"
| "py_truediv n (PBool b) = (if b then Inr (Fin (of_int n)) else Inl ZeroDivisionError)"
| "py_truediv n _ = Inl TypeError"

text \<open>Rounding to the nearest integer, a tie to the even one.\<close>

definition round_half_even :: "rat \<Rightarrow> int" where
  "round_half_even x =
     (let f = \<lfloor>x\<rfloor>; d = x - of_int f in
      if d < 1 / 2 then f
      else if 1 / 2 < d then f + 1
      else if even f then f else f + 1)"

text \<open>\<^verbatim>\<open>round(x, ndigits)\<close> on a float: an infinity and NaN round to themselves.\<close>

fun py_round :: "pyfloat \<Rightarrow> nat \<Rightarrow> pyfloat" where
  "py_round (Fin r) nd = Fin (of_int (round_half_even (r * 10 ^ nd)) / 10 ^ nd)"
| "py_round x nd = x"

subsection \<open>Formatting numbers\<close>

definition digit_char :: "nat \<Rightarrow> char" where
  "digit_char n = ''0123456789'' ! n"

fun digits_of :: "nat \<Rightarrow> string" where
  "digits_of n = (if n < 10 then [digit_char n] else digits_of (n div 10) @ [digit_char (n mod 10)])"

declare digits_of.simps [simp del]

text \<open>\<open>zero_pad w s\<close> puts zeros before \<open>s\<close> up to the width \<open>w\<close>.\<close>

definition zero_pad :: "nat \<Rightarrow> string \<Rightarrow> string" where
  "zero_pad w s = replicate (w - length s) (CHR ''0'') @ s"

text \<open>
  The format \<^verbatim>\<open>{n:02d}\<close> of an integer: the sign counts in the width and the zeros come
  after it.
\<close>

definition format_02d :: "int \<Rightarrow> string" where
  "format_02d n =
     (if n < 0 then CHR ''-'' # zero_pad 1 (digits_of (nat (- n)))
      else zero_pad 2 (digits_of (nat n)))"

text \<open>
  The format \<^verbatim>\<open>{x:06.3f}\<close> of a finite float: three decimals, rounded half to even,
  zeros up to the width six after the sign.
\<close>

definition format_06_3f :: "rat \<Rightarrow> string" where
  "format_06_3f x =
     (let n = nat (round_half_even (\<bar>x\<bar> * 1000));
          body = digits_of (n div 1000) @ CHR ''.'' # zero_pad 3 (digits_of (n mod 1000))
      in if x < 0 then CHR ''-'' # zero_pad 5 body else zero_pad 6 body)"

section \<open>Directory walker and filter\<close>

text \<open>
  A \<^verbatim>\<open>pathlib.Path\<close> is the list of its components; \<^verbatim>\<open>path / name\<close> appends one.
  \<open>path_name\<close> is \<^verbatim>\<open>Path.name\<close> and \<open>path_suffix\<close> is \<^verbatim>\<open>Path.suffix\<close> as Python 3.12
  computes it: the part of the name from its last dot on, when that dot is neither the
  first nor the last character of the name.
\<close>

type_synonym path = "string list"

definition path_name :: "path \<Rightarrow> string" where
  "path_name p = (if p = [] then [] else last p)"

fun rfind :: "char \<Rightarrow> string \<Rightarrow> nat option" where
  "rfind c [] = None"
| "rfind c (x # xs) =
     (case rfind c xs of
        Some i \<Rightarrow> Some (Suc i)
      | None \<Rightarrow> if x = c then Some 0 else None)"

definition path_suffix :: "path \<Rightarrow> string" where
  "path_suffix p =
     (let n = path_name p in
      case rfind (CHR ''.'') n of
        None \<Rightarrow> []
      | Some i \<Rightarrow> if 0 < i \<and> Suc i < length n then drop i n else [])"

text \<open>\<^verbatim>\<open>str(path)\<close>\<close>

fun path_str :: "path \<Rightarrow> string" where
  "path_str [] = ''.''"
| "path_str [c] = c"
| "path_str (c # cs) = c @ ''/'' @ path_str cs"

text \<open>\<open>contains s k\<close> is Python's \<^verbatim>\<open>k in s\<close> on strings: \<open>k\<close> occurs in \<open>s\<close>.\<close>

fun contains :: "string \<Rightarrow> string \<Rightarrow> bool" where
  "contains [] k = (k = [])"
| "contains (c # cs) k = (take (length k) (c # cs) = k \<or> contains cs k)"

text \<open>
  What the walker sees of the file system: an entry is a regular file, a directory with
  its entries in the order \<^verbatim>\<open>iterdir\<close> yields them, or something that is neither
  (\<^verbatim>\<open>is_file()\<close> and \<^verbatim>\<open>is_dir()\<close> both false). A path that does not exist has no node.
  The tree is finite: a cycle of symbolic links is outside the model.
\<close>

datatype fsnode = File | Other | Dir "(string \<times> fsnode) list"

text \<open>The options of the run that the walker reads from its configuration.\<close>

record config =
  cfg_includes :: "string list"
  cfg_excludes :: "string list"
  cfg_extensions :: "string list"
  cfg_no_subdir :: bool

text \<open>
  \<^verbatim>\<open>_MediaProcessor._filter\<close>. Each element of the list given to \<^verbatim>\<open>any\<close> is
  \<^verbatim>\<open>xs and cond\<close>: true when \<open>xs\<close> is not empty and \<open>cond\<close> holds.
\<close>

definition filter_path :: "config \<Rightarrow> path \<Rightarrow> fsnode \<Rightarrow> bool" where
  "filter_path cfg file node =
     (case node of
        Dir es \<Rightarrow>
          \<not> ((cfg_includes cfg \<noteq> [] \<and> \<not> list_ex (contains (path_name file)) (cfg_includes cfg))
             \<or> (cfg_excludes cfg \<noteq> [] \<and> list_ex (contains (path_name file)) (cfg_excludes cfg)))
      | File \<Rightarrow>
          \<not> ((cfg_includes cfg \<noteq> [] \<and> \<not> list_ex (contains (path_name file)) (cfg_includes cfg))
             \<or> (cfg_excludes cfg \<noteq> [] \<and> list_ex (contains (path_name file)) (cfg_excludes cfg))
             \<or> (cfg_extensions cfg \<noteq> [] \<and> \<not> List.member (cfg_extensions cfg) (path_suffix file)))
      | Other \<Rightarrow> True)"

text \<open>
  \<^verbatim>\<open>_MediaProcessor._search_files(path, target_files)\<close>. The list \<open>target_files\<close> is the
  one the source appends to; the third argument is the node at \<open>path\<close>, \<open>None\<close> when the
  path does not exist. \<open>search_dir\<close> is the \<^verbatim>\<open>for f in path.iterdir()\<close> loop. Debug
  printing is left out.

  The source declares \<^verbatim>\<open>target_files: list[Path] = []\<close>, a default that Python evaluates
  once, and \<^verbatim>\<open>__init__\<close> calls \<^verbatim>\<open>self._search_files(self.path)\<close> with it. The
  configuration is a singleton and a second processor for the same path is refused with
  \<^verbatim>\<open>TaskExistsError\<close>, so that call happens once in a process and finds the default
  empty: discovery is \<open>search_files cfg path root []\<close>.
\<close>

fun search_files :: "config \<Rightarrow> path \<Rightarrow> fsnode option \<Rightarrow> path list \<Rightarrow> pyerr + path list"
  and search_dir :: "config \<Rightarrow> path \<Rightarrow> (string \<times> fsnode) list \<Rightarrow> path list \<Rightarrow> pyerr + path list"
where
  "search_files cfg path None target_files = Inl (FileNotFoundError (''The path '' @ path_str path @ '' does not exist.''))"
| "search_files cfg path (Some File) target_files =
     (if filter_path cfg path File then Inr (target_files @ [path]) else Inr target_files)"
| "search_files cfg path (Some (Dir es)) target_files = search_dir cfg path es target_files"
| "search_files cfg path (Some Other) target_files = Inr target_files"
| "search_dir cfg path [] target_files = Inr target_files"
| "search_dir cfg path ((n, node) # es) target_files =
     (let f = path @ [n] in
      if \<not> filter_path cfg f node then search_dir cfg path es target_files
      else case node of
        Dir sub \<Rightarrow>
          if cfg_no_subdir cfg then search_dir cfg path es target_files
          else (case search_files cfg f (Some (Dir sub)) target_files of
                  Inl e \<Rightarrow> Inl e
                | Inr target_files' \<Rightarrow> search_dir cfg path es target_files')
      | File \<Rightarrow> search_dir cfg path es (target_files @ [f])
      | Other \<Rightarrow> search_dir cfg path es target_files)"

section \<open>Media identification\<close>

subsection \<open>Durations\<close>

text \<open>
  \<^verbatim>\<open>_MediaInfo._convert_duration_to_str(duration)\<close>. For a positive divisor \<open>k\<close>, the float
  operations \<^verbatim>\<open>d // k\<close> and \<^verbatim>\<open>d % k\<close> are \<open>\<lfloor>d / k\<rfloor>\<close> and \<open>fl_mod d k\<close>. On an infinity or NaN
  the floor division gives NaN, and \<^verbatim>\<open>int\<close> of NaN raises \<^verbatim>\<open>ValueError\<close>.
\<close>

definition fl_mod :: "rat \<Rightarrow> rat \<Rightarrow> rat" where
  "fl_mod d k = d - k * of_int \<lfloor>d / k\<rfloor>"

fun convert_duration_to_str :: "pyfloat \<Rightarrow> pyerr + string" where
  "convert_duration_to_str (Fin duration) =
     (if duration = 0 then Inr ''00:00:00.000''
      else
        (let h = \<lfloor>duration / 3600\<rfloor>;
             m = \<lfloor>fl_mod duration 3600 / 60\<rfloor>;
             s = fl_mod duration 60
         in Inr (format_02d h @ '':'' @ format_02d m @ '':'' @ format_06_3f s)))"
| "convert_duration_to_str _ = Inl ValueError"

text \<open>\<^verbatim>\<open>s.split(':')\<close>\<close>

fun split_colon :: "string \<Rightarrow> string list" where
  "split_colon [] = [[]]"
| "split_colon (c # cs) =
     (if c = CHR '':'' then [] # split_colon cs
      else (case split_colon cs of
              p # ps \<Rightarrow> (c # p) # ps
            | [] \<Rightarrow> [[c]]))"

text \<open>
  \<^verbatim>\<open>_MediaInfo._convert_duration_to_sec(duration_str)\<close>. The argument is whatever the tag
  holds. An object that is false gives the integer 0; any other object that is not a
  string has no \<^verbatim>\<open>split\<close>. Unpacking \<^verbatim>\<open>h, m, s = map(float, ...)\<close> raises \<^verbatim>\<open>ValueError\<close>
  when there are not exactly three parts or one of them is not a number.
\<close>

definition convert_duration_to_sec :: "pyval \<Rightarrow> pyerr + pyval" where
  "convert_duration_to_sec duration_str =
     (if \<not> py_truthy duration_str then Inr (PInt 0)
      else case duration_str of
        PStr str \<Rightarrow>
          (case split_colon str of
             [hs, ms, ss] \<Rightarrow>
               ebind (float_of_str hs) (\<lambda>h.
               ebind (float_of_str ms) (\<lambda>m.
               ebind (float_of_str ss) (\<lambda>s.
                 Inr (PFloat (fl_add (fl_add (fl_mul h (Fin 3600)) (fl_mul m (Fin 60))) s)))))
           | _ \<Rightarrow> Inl ValueError)
      | _ \<Rightarrow> Inl AttributeError)"

subsection \<open>Lookup tables and the runtime\<close>

text \<open>\<^verbatim>\<open>VIDEO_RESOLUTION_STANDARDS\<close> of \<^verbatim>\<open>core/identify/_base.py\<close>.\<close>

definition VIDEO_RESOLUTION_STANDARDS :: "(string \<times> string) list" where
  "VIDEO_RESOLUTION_STANDARDS = [
    (''320x240'', ''QVGA''), (''352x240'', ''SIF''), (''352x288'', ''CIF''),
    (''352x480'', ''480i''), (''480x320'', ''HVGA''), (''640x480'', ''480p''),
    (''720x480'', ''SD_NTSC''), (''720x576'', ''576i''), (''768x576'', ''SD_PAL+''),
    (''854x480'', ''FWVGA''), (''960x540'', ''qHD''), (''1024x576'', ''576p''),
    (''1024x768'', ''XGA''), (''960x720'', ''720p''), (''1152x648'', ''720p''),
    (''1280x720'', ''720p''), (''1280x800'', ''800p''), (''1280x960'', ''960p''),
    (''1280x1080'', ''1080p''), (''1366x768'', ''768p''), (''1440x900'', ''WXGA+''),
    (''1440x1080'', ''1080p''), (''1440x1440'', ''Square_HD''), (''1600x900'', ''900p''),
    (''1600x1200'', ''UXGA''), (''1620x1080'', ''1080_WIDE''), (''1680x1050'', ''WSXGA+''),
    (''1920x1080'', ''1080p''), (''1920x1200'', ''1200p''), (''2400x1600'', ''Full_HD+''),
    (''2560x1080'', ''UWFHD''), (''3840x1080'', ''DFHD''), (''1920x1440'', ''QHD''),
    (''1998x1080'', ''2K_Flat''), (''2048x858'', ''2K_Scope''),
    (''2048x1080'', ''2K_DCI''), (''2048x1536'', ''2K_DCI''), (''2560x1440'', ''1440p''),
    (''2560x1600'', ''WQXGA''), (''2560x2048'', ''QSXGA''), (''2732x1536'', ''iPad_Pro''),
    (''3200x1440'', ''WQHD+''), (''3200x1800'', ''QHD+''), (''3440x1440'', ''2K_UWQHD''),
    (''3840x1600'', ''UWQHD+''), (''3840x2400'', ''4K WQUXGA''),
    (''3996x2160'', ''4K_Flat''), (''4096x1716'', ''4K_Scope''),
    (''4096x2160'', ''4K_DCI''), (''5120x1440'', ''DQHD''), (''5120x2880'', ''5K''),
    (''5120x3200'', ''5K''), (''6016x3384'', ''6K''), (''7680x3200'', ''8K UWD''),
    (''3840x2160'', ''2160p''), (''7680x4320'', ''4320p''),
    (''1828x1332'', ''2K_Academy''), (''2880x2160'', ''3K''), (''3072x2160'', ''3K''),
    (''3656x2664'', ''4K_Academy''), (''4096x2304'', ''4K UHD+''),
    (''4096x3072'', ''4K Full''), (''5120x2160'', ''5K''), (''6144x3160'', ''6K_IMAX''),
    (''6144x3456'', ''6K Full''), (''8192x3428'', ''8K_Ultra''),
    (''8192x4320'', ''8K_Full''), (''8192x5460'', ''8K Full''), (''10240x4320'', ''10K''),
    (''11520x6480'', ''11K_IMAX'')]"

text \<open>
  What the extractor takes from outside the sources at hand:
  \<^item> \<open>LANGUAGE_CODES\<close>, the table that \<^verbatim>\<open>_base.py\<close> loads from \<^verbatim>\<open>info/ISO_639-2.json\<close>
    (the data file is not among the sources);
  \<^item> \<open>py_str\<close>, the text an f-string puts for an object (\<^verbatim>\<open>str(x)\<close>);
  \<^item> \<open>py_upper\<close>, \<^verbatim>\<open>str.upper\<close>.
\<close>

record runtime =
  LANGUAGE_CODES :: "(string \<times> pyval) list"
  py_str :: "pyval \<Rightarrow> string"
  py_upper :: "string \<Rightarrow> string"

text \<open>
  \<^verbatim>\<open>table.get(key, default)\<close> on a dictionary whose keys are strings. The key is hashed
  first: a list or a dictionary raises \<^verbatim>\<open>TypeError\<close>. A key that is not a string is
  not in the table.
\<close>

definition table_get :: "(string \<times> pyval) list \<Rightarrow> pyval \<Rightarrow> pyval \<Rightarrow> pyerr + pyval" where
  "table_get t k dflt =
     (case k of
        PStr s \<Rightarrow> Inr (case map_of t s of None \<Rightarrow> dflt | Some v \<Rightarrow> v)
      | PList xs \<Rightarrow> Inl TypeError
      | PDict kvs \<Rightarrow> Inl TypeError
      | _ \<Rightarrow> Inr dflt)"

subsection \<open>Track models\<close>

text \<open>
  The dataclasses of \<^verbatim>\<open>_media_identifier.py\<close>. Python does not check the annotations of
  a dataclass: a field holds the object the extractor read from the document.
\<close>

record FormatData =
  fd_score :: int
  fd_size :: int
  fd_duration :: pyfloat
  fd_duration_str :: string
  fd_format :: pyval
  fd_format_long_name :: pyval
  fd_bitrate :: int
  fd_encoder :: pyval
  fd_encoding_info :: pyval

record VideoTrack =
  vt_index :: pyval
  vt_default :: pyval
  vt_forced :: pyval
  vt_codec :: pyval
  vt_language :: pyval
  vt_duration :: pyval
  vt_duration_sec :: pyval
  vt_fps :: pyval
  vt_bps :: pyval
  vt_display_dimensions :: string
  vt_display_width :: pyval
  vt_display_height :: pyval
  vt_display_aspect_ratio :: pyval
  vt_display_resolution :: string
  vt_pixel_width :: pyval
  vt_pixel_height :: pyval
  vt_pixel_dimensions :: string
  vt_pixel_format :: string
  vt_color_range :: pyval
  vt_color_space :: pyval
  vt_color_transfer :: pyval
  vt_color_primaries :: pyval

record AudioTrack =
  at_index :: pyval
  at_codec :: pyval
  at_channels :: pyval
  at_sample_rate :: pyval
  at_language :: pyval
  at_bit_depth :: pyval
  at_duration :: pyval

record SubtitleTrack =
  st_index :: pyval
  st_codec :: pyval
  st_language :: pyval
  st_forced :: pyval
  st_default :: pyval
  st_hearing_impaired :: pyval
  st_visual_impaired :: pyval
  st_font_name :: pyval
  st_mimetype :: pyval
  st_duration :: pyval

record AttachTrack =
  ak_index :: pyval
  ak_codec :: pyval
  ak_filename :: pyval
  ak_mimetype :: pyval
  ak_disposition :: pyval

subsection \<open>Track extractors\<close>

text \<open>
  The frame rate of \<^verbatim>\<open>_extract_video_info\<close>:
  \<^verbatim>\<open>round(_total_frames / _duration_sec, 5)\<close> if both are true, else the integer 0.
\<close>

definition derive_fps :: "pyval \<Rightarrow> int \<Rightarrow> pyerr + pyval" where
  "derive_fps duration_sec total_frames =
     (if py_truthy duration_sec \<and> total_frames \<noteq> 0
      then ebind (py_truediv total_frames duration_sec) (\<lambda>q. Inr (PFloat (py_round q 5)))
      else Inr (PInt 0))"

text \<open>
  \<^verbatim>\<open>_MediaInfo._extract_video_info(track)\<close>. The steps come in the order in which Python
  evaluates them, so the first exception is the one the source raises.
\<close>

definition extract_video_info :: "runtime \<Rightarrow> pyval \<Rightarrow> pyerr + VideoTrack" where
  "extract_video_info rt track =
     ebind (dict_get track ''disposition'' (PDict [])) (\<lambda>disposition.
     ebind (dict_get track ''tags'' (PDict [])) (\<lambda>tags.
     ebind (dict_get track ''width'' (PInt 0)) (\<lambda>display_width.
     ebind (dict_get track ''height'' (PInt 0)) (\<lambda>display_height.
     ebind (dict_get track ''coded_width'' (PInt 0)) (\<lambda>pixel_width.
     ebind (dict_get track ''coded_height'' (PInt 0)) (\<lambda>pixel_height.
     let display_dimensions = py_str rt display_width @ ''x'' @ py_str rt display_height;
         pixel_dimensions = py_str rt pixel_width @ ''x'' @ py_str rt pixel_height in
     ebind (dict_get tags ''DURATION'' (PStr [])) (\<lambda>duration.
     ebind (convert_duration_to_sec duration) (\<lambda>duration_sec.
     ebind (dict_get tags ''NUMBER_OF_FRAMES'' (PInt 0)) (\<lambda>frames.
     ebind (py_int frames) (\<lambda>total_frames.
     ebind (derive_fps duration_sec total_frames) (\<lambda>fps.
     ebind (dict_get track ''index'' PNone) (\<lambda>index.
     ebind (dict_get disposition ''default'' (PBool False)) (\<lambda>default.
     ebind (dict_get disposition ''forced'' (PBool False)) (\<lambda>forced.
     ebind (dict_get track ''codec_name'' (PStr ''Unknown'')) (\<lambda>codec_name.
     ebind (dict_get track ''codec_long_name'' codec_name) (\<lambda>codec.
     ebind (dict_get tags ''language'' (PStr [])) (\<lambda>lang.
     ebind (table_get (LANGUAGE_CODES rt) lang (PStr ''Unknown'')) (\<lambda>language.
     ebind (dict_get tags ''BPS'' (PInt 0)) (\<lambda>bps.
     ebind (dict_get track ''display_aspect_ratio'' (PStr ''Unknown'')) (\<lambda>display_aspect_ratio.
     ebind (dict_get track ''pix_fmt'' (PStr ''Unknown'')) (\<lambda>pix_fmt.
     ebind (case pix_fmt of PStr s \<Rightarrow> Inr (py_upper rt s) | _ \<Rightarrow> Inl AttributeError) (\<lambda>pixel_format.
     ebind (dict_get track ''color_range'' (PStr ''Unknown'')) (\<lambda>color_range.
     ebind (dict_get track ''color_space'' (PStr ''Unknown'')) (\<lambda>color_space.
     ebind (dict_get track ''color_transfer'' (PStr ''Unknown'')) (\<lambda>color_transfer.
     ebind (dict_get track ''color_primaries'' (PStr ''Unknown'')) (\<lambda>color_primaries.
       Inr \<lparr> vt_index = index,
             vt_default = default,
             vt_forced = forced,
             vt_codec = codec,
             vt_language = language,
             vt_duration = duration,
             vt_duration_sec = duration_sec,
             vt_fps = fps,
             vt_bps = bps,
             vt_display_dimensions = display_dimensions,
             vt_display_width = display_width,
             vt_display_height = display_height,
             vt_display_aspect_ratio = display_aspect_ratio,
             vt_display_resolution =
               (case map_of VIDEO_RESOLUTION_STANDARDS display_dimensions of
                  None \<Rightarrow> ''Unknown'' | Some label \<Rightarrow> label),
             vt_pixel_width = pixel_width,
             vt_pixel_height = pixel_height,
             vt_pixel_dimensions = pixel_dimensions,
             vt_pixel_format = pixel_format,
             vt_color_range = color_range,
             vt_color_space = color_space,
             vt_color_transfer = color_transfer,
             vt_color_primaries = color_primaries \<rparr>))))))))))))))))))))))))))"

text \<open>\<^verbatim>\<open>_MediaInfo._extract_audio_info(track)\<close>\<close>

definition extract_audio_info :: "runtime \<Rightarrow> pyval \<Rightarrow> pyerr + AudioTrack" where
  "extract_audio_info rt track =
     ebind (dict_get track ''index'' PNone) (\<lambda>index.
     ebind (dict_get track ''codec_name'' (PStr ''Unknown'')) (\<lambda>codec_name.
     ebind (dict_get track ''codec_long_name'' codec_name) (\<lambda>codec.
     ebind (dict_get track ''channels'' (PInt 0)) (\<lambda>channels.
     ebind (dict_get track ''sample_rate'' (PInt 0)) (\<lambda>sample_rate.
     ebind (dict_get track ''language'' (PStr [])) (\<lambda>lang.
     ebind (table_get (LANGUAGE_CODES rt) lang (PStr ''Unknown'')) (\<lambda>language.
     ebind (dict_get track ''bits_per_sample'' (PInt 0)) (\<lambda>bit_depth.
     ebind (dict_get track ''duration'' (PInt 0)) (\<lambda>duration.
       Inr \<lparr> at_index = index,
             at_codec = codec,
             at_channels = channels,
             at_sample_rate = sample_rate,
             at_language = language,
             at_bit_depth = bit_depth,
             at_duration = duration \<rparr>)))))))))"

text \<open>\<^verbatim>\<open>_MediaInfo._extract_subtitle_info(track)\<close>\<close>

definition extract_subtitle_info :: "runtime \<Rightarrow> pyval \<Rightarrow> pyerr + SubtitleTrack" where
  "extract_subtitle_info rt track =
     ebind (dict_get track ''index'' PNone) (\<lambda>index.
     ebind (dict_get track ''codec_name'' (PStr ''Unknown'')) (\<lambda>codec.
     ebind (dict_get track ''language'' (PStr [])) (\<lambda>lang.
     ebind (table_get (LANGUAGE_CODES rt) lang (PStr ''Unknown'')) (\<lambda>language.
     ebind (dict_get track ''disposition'' (PDict [])) (\<lambda>disposition.
     ebind (dict_get disposition ''forced'' (PBool False)) (\<lambda>forced.
     ebind (dict_get track ''disposition'' (PDict [])) (\<lambda>disposition.
     ebind (dict_get disposition ''default'' (PBool False)) (\<lambda>default.
     ebind (dict_get track ''disposition'' (PDict [])) (\<lambda>disposition.
     ebind (dict_get disposition ''hearing_impaired'' (PBool False)) (\<lambda>hearing_impaired.
     ebind (dict_get track ''disposition'' (PDict [])) (\<lambda>disposition.
     ebind (dict_get disposition ''visual_impaired'' (PBool False)) (\<lambda>visual_impaired.
     ebind (dict_get track ''tags'' (PDict [])) (\<lambda>tags.
     ebind (dict_get tags ''filename'' (PStr ''Unknown'')) (\<lambda>font_name.
     ebind (dict_get track ''tags'' (PDict [])) (\<lambda>tags.
     ebind (dict_get tags ''mimetype'' (PStr ''Unknown'')) (\<lambda>mimetype.
     ebind (dict_get track ''duration'' (PInt 0)) (\<lambda>duration.
       Inr \<lparr> st_index = index,
             st_codec = codec,
             st_language = language,
             st_forced = forced,
             st_default = default,
             st_hearing_impaired = hearing_impaired,
             st_visual_impaired = visual_impaired,
             st_font_name = font_name,
             st_mimetype = mimetype,
             st_duration = duration \<rparr>)))))))))))))))))"

text \<open>\<^verbatim>\<open>_MediaInfo._extract_attach_info(track)\<close>\<close>

definition extract_attach_info :: "pyval \<Rightarrow> pyerr + AttachTrack" where
  "extract_attach_info track =
     ebind (dict_get track ''tags'' (PDict [])) (\<lambda>tags.
     ebind (dict_get track ''index'' PNone) (\<lambda>index.
     ebind (dict_get track ''codec_name'' (PStr ''Unknown'')) (\<lambda>codec.
     ebind (dict_get tags ''filename'' (PStr ''Unknown'')) (\<lambda>filename.
     ebind (dict_get tags ''mimetype'' (PStr ''Unknown'')) (\<lambda>mimetype.
     ebind (dict_get track ''disposition'' (PDict [])) (\<lambda>disposition.
       Inr \<lparr> ak_index = index,
             ak_codec = codec,
             ak_filename = filename,
             ak_mimetype = mimetype,
             ak_disposition = disposition \<rparr>))))))"

subsection \<open>The state of a \<^verbatim>\<open>MediaInfo\<close> object and the classification of its streams\<close>

text \<open>
  The instance attributes that \<^verbatim>\<open>_MediaInfo.__init__\<close> sets. \<open>mi_tracks\<close> maps an index
  to its type name, \<open>mi_tracks_by_type\<close> a type name to the list of its indices, and
  there is one dictionary (bucket) of track records per type.
\<close>

record media_info =
  mi_file_path :: path
  mi_raw_info :: pyval
  mi_format_data :: FormatData
  mi_tracks :: "string pydict"
  mi_tracks_by_type :: "(string \<times> pyval list) list"
  mi_video_tracks :: "VideoTrack pydict"
  mi_audio_tracks :: "AudioTrack pydict"
  mi_subtitle_tracks :: "SubtitleTrack pydict"
  mi_attach_tracks :: "AttachTrack pydict"
  mi_attach_fonts :: nat

text \<open>The properties \<^verbatim>\<open>total_tracks\<close>, \<^verbatim>\<open>total_video_tracks\<close>, ... : the sizes of the dictionaries.\<close>

definition total_tracks :: "media_info \<Rightarrow> nat" where
  "total_tracks self = length (mi_tracks self)"

definition total_video_tracks :: "media_info \<Rightarrow> nat" where
  "total_video_tracks self = length (mi_video_tracks self)"

definition total_audio_tracks :: "media_info \<Rightarrow> nat" where
  "total_audio_tracks self = length (mi_audio_tracks self)"

definition total_subtitle_tracks :: "media_info \<Rightarrow> nat" where
  "total_subtitle_tracks self = length (mi_subtitle_tracks self)"

definition total_attach_tracks :: "media_info \<Rightarrow> nat" where
  "total_attach_tracks self = length (mi_attach_tracks self)"

text \<open>The property \<^verbatim>\<open>tracks_by_type\<close>, read at one type; a type that is not a key has no indices.\<close>

definition tracks_by_type :: "media_info \<Rightarrow> string \<Rightarrow> pyval list" where
  "tracks_by_type self track_type =
     (case map_of (mi_tracks_by_type self) track_type of None \<Rightarrow> [] | Some idxs \<Rightarrow> idxs)"

text \<open>
  The end of the loop body of \<^verbatim>\<open>_get_tracks_data\<close>:
  \<^verbatim>\<open>self._tracks[data.index] = track_type\<close>, then the index is appended to the list of
  its type, which is created when the type is new.
\<close>

fun by_type_append :: "(string \<times> pyval list) list \<Rightarrow> string \<Rightarrow> pyval \<Rightarrow> (string \<times> pyval list) list" where
  "by_type_append [] t i = [(t, [i])]"
| "by_type_append ((t', idxs) # d) t i =
     (if t' = t then (t', idxs @ [i]) # d else (t', idxs) # by_type_append d t i)"

definition register_track :: "media_info \<Rightarrow> pyval \<Rightarrow> string \<Rightarrow> pyerr + media_info" where
  "register_track self index track_type =
     ebind (pd_set (mi_tracks self) index track_type) (\<lambda>tracks.
       Inr (self\<lparr> mi_tracks := tracks,
                  mi_tracks_by_type := by_type_append (mi_tracks_by_type self) track_type index \<rparr>))"

text \<open>
  One turn of the loop of \<^verbatim>\<open>_MediaInfo._get_tracks_data\<close>, for the stream \<open>track\<close>. The
  \<^verbatim>\<open>match\<close> compares the type with string literals, so only a string can match. A
  \<^verbatim>\<open>continue\<close> leaves the object as it is. Warnings are printed and not modelled.
\<close>

definition classify_track :: "runtime \<Rightarrow> pyval \<Rightarrow> media_info \<Rightarrow> pyerr + media_info" where
  "classify_track rt track self =
     ebind (dict_get track ''codec_type'' (PStr ''Unknown'')) (\<lambda>track_type.
       if track_type = PStr ''video'' then
         ebind (extract_video_info rt track) (\<lambda>data.
           if vt_index data = PNone then Inr self
           else
             ebind (pd_contains (mi_video_tracks self) (vt_index data)) (\<lambda>present.
             ebind (if present then Inr self
                    else ebind (pd_set (mi_video_tracks self) (vt_index data) data)
                           (\<lambda>bucket. Inr (self\<lparr> mi_video_tracks := bucket \<rparr>))) (\<lambda>self'.
               register_track self' (vt_index data) ''video'')))
       else if track_type = PStr ''audio'' then
         ebind (extract_audio_info rt track) (\<lambda>data.
           if at_index data = PNone then Inr self
           else
             ebind (pd_contains (mi_audio_tracks self) (at_index data)) (\<lambda>present.
             ebind (if present then Inr self
                    else ebind (pd_set (mi_audio_tracks self) (at_index data) data)
                           (\<lambda>bucket. Inr (self\<lparr> mi_audio_tracks := bucket \<rparr>))) (\<lambda>self'.
               register_track self' (at_index data) ''audio'')))
       else if track_type = PStr ''subtitle'' then
         ebind (extract_subtitle_info rt track) (\<lambda>data.
           if st_index data = PNone then Inr self
           else
             ebind (pd_contains (mi_subtitle_tracks self) (st_index data)) (\<lambda>present.
             ebind (if present then Inr self
                    else ebind (pd_set (mi_subtitle_tracks self) (st_index data) data)
                           (\<lambda>bucket. Inr (self\<lparr> mi_subtitle_tracks := bucket \<rparr>))) (\<lambda>self'.
               register_track self' (st_index data) ''subtitle'')))
       else if track_type = PStr ''attachment'' then
         ebind (extract_attach_info track) (\<lambda>data.
           if ak_index data = PNone then Inr self
           else
             ebind (dict_get track ''codec_name'' (PStr [])) (\<lambda>codec_name.
             let self1 =
                   (if List.member [PStr ''ttf'', PStr ''ttc'', PStr ''woff'', PStr ''woff2''] codec_name
                    then self\<lparr> mi_attach_fonts := mi_attach_fonts self + 1 \<rparr> else self) in
             ebind (pd_contains (mi_attach_tracks self1) (ak_index data)) (\<lambda>present.
             ebind (if present then Inr self1
                    else ebind (pd_set (mi_attach_tracks self1) (ak_index data) data)
                           (\<lambda>bucket. Inr (self1\<lparr> mi_attach_tracks := bucket \<rparr>))) (\<lambda>self'.
               register_track self' (ak_index data) ''attachment''))))
       else Inr self)"

text \<open>
  \<^verbatim>\<open>for track in _tracks\<close>: a list gives its elements, a dictionary its keys, a string its
  characters; nothing else can be iterated.
\<close>

fun py_iter :: "pyval \<Rightarrow> pyerr + pyval list" where
  "py_iter (PList xs) = Inr xs"
| "py_iter (PDict kvs) = Inr (map (\<lambda>kv. PStr (fst kv)) kvs)"
| "py_iter (PStr s) = Inr (map (\<lambda>c. PStr [c]) s)"
| "py_iter _ = Inl TypeError"

fun classify_all :: "runtime \<Rightarrow> pyval list \<Rightarrow> media_info \<Rightarrow> pyerr + media_info" where
  "classify_all rt [] self = Inr self"
| "classify_all rt (track # tracks) self =
     ebind (classify_track rt track self) (classify_all rt tracks)"

text \<open>\<^verbatim>\<open>_MediaInfo._get_tracks_data()\<close>\<close>

definition get_tracks_data :: "runtime \<Rightarrow> media_info \<Rightarrow> pyerr + media_info" where
  "get_tracks_data rt self =
     ebind (dict_get (mi_raw_info self) ''streams'' (PList [])) (\<lambda>tracks.
     ebind (py_iter tracks) (\<lambda>ts. classify_all rt ts self))"

subsection \<open>Reading the result of the classification\<close>

text \<open>
  \<^verbatim>\<open>type TrackTypes = VideoTrack | AudioTrack | SubtitleTrack | AttachTrack\<close>, with the
  \<^verbatim>\<open>index\<close> field that the four dataclasses share.
\<close>

datatype TrackTypes =
    Video VideoTrack
  | Audio AudioTrack
  | Subtitle SubtitleTrack
  | Attach AttachTrack

fun track_index :: "TrackTypes \<Rightarrow> pyval" where
  "track_index (Video d) = vt_index d"
| "track_index (Audio d) = at_index d"
| "track_index (Subtitle d) = st_index d"
| "track_index (Attach d) = ak_index d"

text \<open>
  The four type names of the \<^verbatim>\<open>match\<close> in \<^verbatim>\<open>_get_tracks_data\<close>, the extractor each one
  selects, and the dictionary (bucket) each one fills. \<open>stream_type\<close> is the recognised
  type of a stream, if it has one.
\<close>

definition track_types :: "string list" where
  "track_types = [''video'', ''audio'', ''subtitle'', ''attachment'']"

definition stream_type :: "pyval \<Rightarrow> string option" where
  "stream_type track =
     (case dict_get track ''codec_type'' (PStr ''Unknown'') of
        Inr (PStr t) \<Rightarrow> if List.member track_types t then Some t else None
      | _ \<Rightarrow> None)"

definition extract_track :: "runtime \<Rightarrow> string \<Rightarrow> pyval \<Rightarrow> pyerr + TrackTypes" where
  "extract_track rt t track =
     (if t = ''video'' then ebind (extract_video_info rt track) (\<lambda>d. Inr (Video d))
      else if t = ''audio'' then ebind (extract_audio_info rt track) (\<lambda>d. Inr (Audio d))
      else if t = ''subtitle'' then ebind (extract_subtitle_info rt track) (\<lambda>d. Inr (Subtitle d))
      else ebind (extract_attach_info track) (\<lambda>d. Inr (Attach d)))"

definition bucket :: "media_info \<Rightarrow> string \<Rightarrow> TrackTypes pydict" where
  "bucket self t =
     (if t = ''video'' then map (\<lambda>kv. (fst kv, Video (snd kv))) (mi_video_tracks self)
      else if t = ''audio'' then map (\<lambda>kv. (fst kv, Audio (snd kv))) (mi_audio_tracks self)
      else if t = ''subtitle'' then map (\<lambda>kv. (fst kv, Subtitle (snd kv))) (mi_subtitle_tracks self)
      else if t = ''attachment'' then map (\<lambda>kv. (fst kv, Attach (snd kv))) (mi_attach_tracks self)
      else [])"

text \<open>The test of the attachment case for a font: the codec name is one of four names.\<close>

definition is_font :: "pyval \<Rightarrow> bool" where
  "is_font track =
     (case dict_get track ''codec_name'' (PStr []) of
        Inr c \<Rightarrow> List.member [PStr ''ttf'', PStr ''ttc'', PStr ''woff'', PStr ''woff2''] c
      | Inl e \<Rightarrow> False)"

text \<open>The property \<^verbatim>\<open>total_<type>_tracks\<close> for a type name: the size of its bucket.\<close>

definition total_of_type :: "media_info \<Rightarrow> string \<Rightarrow> nat" where
  "total_of_type self t =
     (if t = ''video'' then total_video_tracks self
      else if t = ''audio'' then total_audio_tracks self
      else if t = ''subtitle'' then total_subtitle_tracks self
      else if t = ''attachment'' then total_attach_tracks self
      else 0)"

text \<open>
  \<open>first_wins d (k, v)\<close> is the statement
  \<^verbatim>\<open>if k not in d: d[k] = v\<close> on a dictionary, for a key that can be hashed.
\<close>

definition first_wins :: "'v pydict \<Rightarrow> pyval \<times> 'v \<Rightarrow> 'v pydict" where
  "first_wins d kv = (if pd_lookup d (fst kv) \<noteq> None then d else pd_update d (fst kv) (snd kv))"

text \<open>No two keys of the dictionary are equal as Python compares keys.\<close>

fun pd_distinct :: "'v pydict \<Rightarrow> bool" where
  "pd_distinct [] = True"
| "pd_distinct ((k, v) # d) = (pd_lookup d k = None \<and> pd_distinct d)"

text \<open>
  The streams of type \<open>t\<close> of a document that the loop files, in the order of the
  document, each as the pair of its index and the record its extractor builds: the
  streams of that type whose extractor returns a record with an index other than
  \<^verbatim>\<open>None\<close>.
\<close>

definition typed_pairs :: "runtime \<Rightarrow> string \<Rightarrow> pyval list \<Rightarrow> TrackTypes pydict" where
  "typed_pairs rt t tracks =
     concat (map (\<lambda>track.
       if stream_type track = Some t then
         (case extract_track rt t track of
            Inr d \<Rightarrow> if track_index d = PNone then [] else [(track_index d, d)]
          | Inl e \<Rightarrow> [])
       else []) tracks)"

text \<open>
  The streams of a document: what the loop of \<^verbatim>\<open>_get_tracks_data\<close> iterates over, when
  \<^verbatim>\<open>.get('streams', [])\<close> gives something that can be iterated.
\<close>

definition document_streams :: "pyval \<Rightarrow> pyval list" where
  "document_streams raw_info =
     (case dict_get raw_info ''streams'' (PList []) of
        Inr v \<Rightarrow> (case py_iter v of Inr ts \<Rightarrow> ts | Inl e \<Rightarrow> [])
      | Inl e \<Rightarrow> [])"

text \<open>An object as \<^verbatim>\<open>__init__\<close> sets it up before the streams are classified.\<close>

definition fresh_object :: "path \<Rightarrow> pyval \<Rightarrow> FormatData \<Rightarrow> media_info" where
  "fresh_object file_path raw_info format_data =
     \<lparr> mi_file_path = file_path,
       mi_raw_info = raw_info,
       mi_format_data = format_data,
       mi_tracks = [],
       mi_tracks_by_type = [],
       mi_video_tracks = [],
       mi_audio_tracks = [],
       mi_subtitle_tracks = [],
       mi_attach_tracks = [],
       mi_attach_fonts = 0 \<rparr>"

subsection \<open>Reading a document\<close>






subsection \<open>The class, the probe and the constructor\<close>

text \<open>
  The state of the process that \<^verbatim>\<open>MediaInfo\<close> reads and writes:
  \<^item> the class attributes \<^verbatim>\<open>_files\<close>, \<^verbatim>\<open>_total_file_size\<close> and \<^verbatim>\<open>_debug_mode\<close>;
  \<^item> the objects of the class, by address; an object that \<^verbatim>\<open>__new__\<close> has made and
    \<^verbatim>\<open>__init__\<close> has not finished has no attribute \<^verbatim>\<open>created\<close> (\<open>None\<close>);
  \<^item> \<open>probed\<close>, the files for which the probe tool has been run and has given a
    document, in order: a trace of the effect, not a variable of the program.
  A key of \<^verbatim>\<open>_files\<close> is a string or a \<^verbatim>\<open>Path\<close> object. Python never finds a \<^verbatim>\<open>Path\<close>
  equal to a string: \<^verbatim>\<open>PurePath.__eq__\<close> returns \<^verbatim>\<open>NotImplemented\<close> for an operand that is
  not a path.
\<close>

datatype pykey = KStr string | KPath path

record pystate =
  cls_files :: "(pykey \<times> nat) list"
  cls_total_file_size :: int
  cls_debug_mode :: bool
  heap :: "media_info option list"
  probed :: "path list"

definition heap_get :: "pystate \<Rightarrow> nat \<Rightarrow> media_info option" where
  "heap_get st a = (if a < length (heap st) then heap st ! a else None)"

text \<open>\<^verbatim>\<open>d[k] = v\<close> on an association list.\<close>

fun assoc_set :: "('k \<times> 'v) list \<Rightarrow> 'k \<Rightarrow> 'v \<Rightarrow> ('k \<times> 'v) list" where
  "assoc_set [] k v = [(k, v)]"
| "assoc_set ((k', v') # d) k v = (if k' = k then (k', v) # d else (k', v') # assoc_set d k v)"

text \<open>
  What the probe step takes from outside: the result of \<^verbatim>\<open>shutil.which('ffprobe')\<close>, the
  outcome of \<^verbatim>\<open>subprocess.run\<close> for a file (the exit status and the standard output of
  the tool, or an exception of \<^verbatim>\<open>run\<close> itself), the text of a \<^verbatim>\<open>CalledProcessError\<close>, and
  \<^verbatim>\<open>json.loads\<close> (\<open>None\<close> when it raises \<^verbatim>\<open>JSONDecodeError\<close>).
\<close>

datatype run_result = Completed int string | RunRaised pyerr

record world =
  which_ffprobe :: "string option"
  run_ffprobe :: "string \<Rightarrow> path \<Rightarrow> run_result"
  called_process_error_str :: "string \<Rightarrow> path \<Rightarrow> int \<Rightarrow> string"
  json_loads :: "string \<Rightarrow> pyval option"

text \<open>
  \<^verbatim>\<open>_MediaInfo._get_raw_data()\<close>. With \<^verbatim>\<open>check=True\<close>, \<^verbatim>\<open>subprocess.run\<close> raises
  \<^verbatim>\<open>CalledProcessError\<close> on an exit status other than 0, which the source turns into
  \<^verbatim>\<open>QueryError\<close>; any other exception of \<^verbatim>\<open>run\<close> is printed and raised again.
\<close>

definition get_raw_data :: "world \<Rightarrow> path \<Rightarrow> pystate \<Rightarrow> pyerr + (pyval \<times> pystate)" where
  "get_raw_data w file_path st =
     (case which_ffprobe w of
        None \<Rightarrow>
          Inl (RuntimeError ''ffprobe not found, please make sure you installed ffmpeg correctly.'')
      | Some ffprobe \<Rightarrow>
          if ffprobe = [] then
            Inl (RuntimeError ''ffprobe not found, please make sure you installed ffmpeg correctly.'')
          else
            (case run_ffprobe w ffprobe file_path of
               RunRaised e \<Rightarrow> Inl e
             | Completed returncode stdout \<Rightarrow>
                 if returncode \<noteq> 0 then
                   Inl (QueryError (''[ERROR] Failed to execute ffprobe: ''
                                     @ called_process_error_str w ffprobe file_path returncode))
                 else if stdout = [] then
                   Inl (QueryError ''Failed to get raw data from ffprobe.'')
                 else
                   (case json_loads w stdout of
                      None \<Rightarrow> Inl JSONDecodeError
                    | Some doc \<Rightarrow> Inr (doc, st\<lparr> probed := probed st @ [file_path] \<rparr>))))"

text \<open>
  \<^verbatim>\<open>_MediaInfo._get_format_data()\<close>, on the document \<open>raw_info\<close>. The size is added to
  the class attribute \<^verbatim>\<open>_total_file_size\<close> before the record is built.
\<close>

definition get_format_data :: "pyval \<Rightarrow> pystate \<Rightarrow> pyerr + (FormatData \<times> pystate)" where
  "get_format_data raw_info st =
     ebind (dict_get raw_info ''format'' (PDict [])) (\<lambda>format.
     ebind (dict_get format ''tags'' (PDict [])) (\<lambda>tags.
     ebind (dict_get format ''size'' (PInt 0)) (\<lambda>size_v.
     ebind (py_int size_v) (\<lambda>size.
     ebind (dict_get format ''duration'' (PInt 0)) (\<lambda>duration_v.
     ebind (py_float duration_v) (\<lambda>duration.
     ebind (dict_get format ''format_name'' (PStr ''Unknown'')) (\<lambda>format_name.
     ebind (dict_get format ''format_long_name'' format_name) (\<lambda>format_long_name.
     let st' = st\<lparr> cls_total_file_size := cls_total_file_size st + size \<rparr> in
     ebind (dict_get format ''probe_score'' (PInt 0)) (\<lambda>score_v.
     ebind (py_int score_v) (\<lambda>score.
     ebind (convert_duration_to_str duration) (\<lambda>duration_str.
     ebind (dict_get format ''bit_rate'' (PInt 0)) (\<lambda>bitrate_v.
     ebind (py_int bitrate_v) (\<lambda>bitrate.
     ebind (dict_get tags ''ENCODER'' (PStr ''Unknown'')) (\<lambda>encoder.
     ebind (dict_get tags ''ENCODING_INFO'' (PStr ''Unknown'')) (\<lambda>encoding_info.
       Inr (\<lparr> fd_score = score,
              fd_size = size,
              fd_duration = duration,
              fd_duration_str = duration_str,
              fd_format = format_name,
              fd_format_long_name = format_long_name,
              fd_bitrate = bitrate,
              fd_encoder = encoder,
              fd_encoding_info = encoding_info \<rparr>, st'))))))))))))))))"

text \<open>
  \<^verbatim>\<open>_MediaInfo.__new__(cls, file_path)\<close> for the public class. The test
  \<^verbatim>\<open>file_path not in cls._files\<close> looks the \<^verbatim>\<open>Path\<close> object up; the new object is stored
  under the string \<^verbatim>\<open>str(file_path)\<close>, and the object under that string is returned.
\<close>

definition MediaInfo_new :: "path \<Rightarrow> pystate \<Rightarrow> pyerr + (nat \<times> pystate)" where
  "MediaInfo_new file_path st =
     (let st' =
            (if map_of (cls_files st) (KPath file_path) = None
             then st\<lparr> heap := heap st @ [None],
                       cls_files := assoc_set (cls_files st) (KStr (path_str file_path)) (length (heap st)) \<rparr>
             else st)
      in case map_of (cls_files st') (KStr (path_str file_path)) of
           None \<Rightarrow> Inl (OtherException ''KeyError'')
         | Some self \<Rightarrow> Inr (self, st'))"

text \<open>
  \<^verbatim>\<open>_MediaInfo.__init__(self, file_path, debug)\<close>: nothing happens on an object that has
  the attribute \<^verbatim>\<open>created\<close>; otherwise the file is probed, the format record built, the
  streams classified, and \<^verbatim>\<open>created\<close> set.
\<close>

definition MediaInfo_init ::
  "runtime \<Rightarrow> world \<Rightarrow> nat \<Rightarrow> path \<Rightarrow> bool \<Rightarrow> pystate \<Rightarrow> pyerr + pystate" where
  "MediaInfo_init rt w self file_path debug st =
     (case heap_get st self of
        Some obj \<Rightarrow> Inr st
      | None \<Rightarrow>
          ebind (get_raw_data w file_path (st\<lparr> cls_debug_mode := debug \<rparr>)) (\<lambda>(raw_info, st1).
          ebind (get_format_data raw_info st1) (\<lambda>(format_data, st2).
          ebind (get_tracks_data rt (fresh_object file_path raw_info format_data)) (\<lambda>obj.
            Inr (st2\<lparr> heap := (heap st2)[self := Some obj] \<rparr>)))))"

text \<open>The call \<^verbatim>\<open>MediaInfo(file_path, debug)\<close>: \<^verbatim>\<open>__new__\<close>, then \<^verbatim>\<open>__init__\<close> on its result.\<close>

definition MediaInfo :: "runtime \<Rightarrow> world \<Rightarrow> path \<Rightarrow> bool \<Rightarrow> pystate \<Rightarrow> pyerr + (nat \<times> pystate)" where
  "MediaInfo rt w file_path debug st =
     ebind (MediaInfo_new file_path st) (\<lambda>(self, st1).
     ebind (MediaInfo_init rt w self file_path debug st1) (\<lambda>st2. Inr (self, st2)))"

text \<open>The state of a process that has made no \<^verbatim>\<open>MediaInfo\<close> yet.\<close>

definition initial_state :: pystate where
  "initial_state =
     \<lparr> cls_files = [], cls_total_file_size = 0, cls_debug_mode = False, heap = [], probed = [] \<rparr>"

text \<open>Two calls \<^verbatim>\<open>MediaInfo(file_path, debug)\<close> in a row: the two objects and the state after.\<close>

definition construct_twice ::
  "runtime \<Rightarrow> world \<Rightarrow> path \<Rightarrow> bool \<Rightarrow> pystate \<Rightarrow> pyerr + (nat \<times> nat \<times> pystate)" where
  "construct_twice rt w file_path debug st =
     ebind (MediaInfo rt w file_path debug st) (\<lambda>(first, st1).
     ebind (MediaInfo rt w file_path debug st1) (\<lambda>(second, st2).
       Inr (first, second, st2)))"

text \<open>Every key of \<^verbatim>\<open>_files\<close> is a string: so it is in every state the program reaches.\<close>

definition str_keyed :: "pystate \<Rightarrow> bool" where
  "str_keyed st = list_all (\<lambda>kv. case fst kv of KStr s \<Rightarrow> True | KPath p \<Rightarrow> False) (cls_files st)"

section \<open>Catalog assembly\<close>

text \<open>
  \<^verbatim>\<open>_MediaProcessor._get_media_info(target_files)\<close>. \<open>data\<close> is the dictionary from the
  sequence number to the \<^verbatim>\<open>MediaInfo\<close> object (its address), \<open>extracted\<close> the counter of
  the source. The \<^verbatim>\<open>match file.suffix\<close> has the one case \<^verbatim>\<open>'.mkv'\<close>; a file with another
  suffix is passed over. Progress messages are printed and not modelled.
\<close>

fun get_media_info_loop ::
  "runtime \<Rightarrow> world \<Rightarrow> bool \<Rightarrow> path list \<Rightarrow> nat \<Rightarrow> (nat \<times> nat) list \<Rightarrow> pystate
     \<Rightarrow> pyerr + ((nat \<times> nat) list \<times> pystate)" where
  "get_media_info_loop rt w debug [] extracted data st = Inr (data, st)"
| "get_media_info_loop rt w debug (file # files) extracted data st =
     (if path_suffix file = ''.mkv'' then
        ebind (MediaInfo rt w file debug st) (\<lambda>(obj, st').
          get_media_info_loop rt w debug files (extracted + 1)
            (assoc_set data (extracted + 1) obj) st')
      else get_media_info_loop rt w debug files extracted data st)"

definition get_media_info ::
  "runtime \<Rightarrow> world \<Rightarrow> bool \<Rightarrow> path list \<Rightarrow> pystate \<Rightarrow> pyerr + ((nat \<times> nat) list \<times> pystate)" where
  "get_media_info rt w debug target_files st = get_media_info_loop rt w debug target_files 0 [] st"

section \<open>Example inputs\<close>

text \<open>
  A runtime and streams on which the theorems are instantiated: a language table with
  two entries, \<^verbatim>\<open>str\<close> on integers and strings, and \<^verbatim>\<open>upper\<close> on ASCII letters.
\<close>

definition upper_char :: "char \<Rightarrow> char" where
  "upper_char c =
     (case map_of (zip ''abcdefghijklmnopqrstuvwxyz'' ''ABCDEFGHIJKLMNOPQRSTUVWXYZ'') c of
        Some u \<Rightarrow> u
      | None \<Rightarrow> c)"

definition example_runtime :: runtime where
  "example_runtime =
     \<lparr> LANGUAGE_CODES = [(''eng'', PStr ''English''), (''jpn'', PStr ''Japanese'')],
       py_str = (\<lambda>v. case v of
                   PInt n \<Rightarrow> (if n < 0 then ''-'' else []) @ digits_of (nat \<bar>n\<bar>)
                 | PStr s \<Rightarrow> s
                 | _ \<Rightarrow> ''?''),
       py_upper = map upper_char \<rparr>"

definition example_audio_1 :: pyval where
  "example_audio_1 =
     PDict [(''codec_type'', PStr ''audio''), (''index'', PInt 1), (''codec_name'', PStr ''aac''),
            (''tags'', PDict [(''language'', PStr ''eng'')])]"

definition example_audio_2 :: pyval where
  "example_audio_2 =
     PDict [(''codec_type'', PStr ''audio''), (''index'', PInt 1), (''codec_name'', PStr ''ac3'')]"

text \<open>A document whose streams are the two audio streams, which report the same index.\<close>

definition example_document_two_audio :: pyval where
  "example_document_two_audio = PDict [(''streams'', PList [example_audio_1, example_audio_2])]"

definition example_format_data :: FormatData where
  "example_format_data =
     \<lparr> fd_score = 100, fd_size = 1000, fd_duration = Fin 0, fd_duration_str = ''00:00:00.000'',
       fd_format = PStr ''matroska,webm'', fd_format_long_name = PStr ''Matroska / WebM'',
       fd_bitrate = 0, fd_encoder = PStr ''Unknown'', fd_encoding_info = PStr ''Unknown'' \<rparr>"

definition example_video_1 :: pyval where
  "example_video_1 =
     PDict [(''codec_type'', PStr ''video''), (''index'', PInt 0), (''codec_name'', PStr ''h264''),
            (''width'', PInt 1920), (''height'', PInt 1080),
            (''tags'', PDict [(''language'', PStr ''eng''), (''DURATION'', PStr ''00:01:40.000''),
                              (''NUMBER_OF_FRAMES'', PStr ''2398'')])]"

definition example_subtitle_1 :: pyval where
  "example_subtitle_1 =
     PDict [(''codec_type'', PStr ''subtitle''), (''index'', PInt 2), (''codec_name'', PStr ''ass''),
            (''tags'', PDict [(''language'', PStr ''jpn'')])]"





text \<open>
  A world in which the probe tool is installed. It fails on \<open>broken.mkv\<close>, prints nothing
  for \<open>empty.mkv\<close>, prints text that is not JSON for \<open>garbage.mkv\<close>, and reports a
  container of 1000 bytes with no streams for every other file.
\<close>

definition example_document :: pyval where
  "example_document =
     PDict [(''streams'', PList []),
            (''format'', PDict [(''format_name'', PStr ''matroska,webm''), (''size'', PStr ''1000'')])]"

definition example_world :: world where
  "example_world =
     \<lparr> which_ffprobe = Some ''/usr/bin/ffprobe'',
       run_ffprobe = (\<lambda>ffprobe file_path.
          if file_path = [''broken.mkv''] then Completed 1 []
          else if file_path = [''empty.mkv''] then Completed 0 []
          else if file_path = [''garbage.mkv''] then Completed 0 ''<html>''
          else Completed 0 ''{ ... }''),
       called_process_error_str = (\<lambda>ffprobe file_path returncode. ''Command returned non-zero exit status.''),
       json_loads = (\<lambda>s. if s = ''{ ... }'' then Some example_document else None) \<rparr>"

section \<open>Properties of the walker\<close>

lemma search_files_file_appends:
  "search_files cfg p (Some File) acc =
     Inr (acc @ (if filter_path cfg p File then [p] else []))"
  by simp

text \<open>
  Claim C8. When the root is a single existing file, discovery returns the empty list or
  the one-element list holding that root, under every filter configuration, and the
  root is in the result exactly when it passes the file filter.
\<close>

theorem walker_single_file:
  "search_files cfg p (Some File) [] = Inr (if filter_path cfg p File then [p] else [])
   \<and> (search_files cfg p (Some File) [] = Inr [] \<or> search_files cfg p (Some File) [] = Inr [p])
   \<and> (search_files cfg p (Some File) [] = Inr [p] \<longleftrightarrow> filter_path cfg p File)"
  by simp

theorem walker_single_file_witness:
  "search_files \<lparr> cfg_includes = [], cfg_excludes = [''sample''],
                   cfg_extensions = [''.mkv'', ''.mp4''], cfg_no_subdir = False \<rparr>
     [''videos'', ''movie.mkv''] (Some File) [] = Inr [[''videos'', ''movie.mkv'']]
   \<and> search_files \<lparr> cfg_includes = [], cfg_excludes = [''sample''],
                   cfg_extensions = [''.mkv'', ''.mp4''], cfg_no_subdir = False \<rparr>
     [''videos'', ''notes.txt''] (Some File) [] = Inr []"
proof -
  let ?cfg = "\<lparr> cfg_includes = [], cfg_excludes = [''sample''],
                 cfg_extensions = [''.mkv'', ''.mp4''], cfg_no_subdir = False \<rparr>"
  have a: "filter_path ?cfg [''videos'', ''movie.mkv''] File"
    by (simp add: filter_path_def path_name_def path_suffix_def)
  have b: "\<not> filter_path ?cfg [''videos'', ''notes.txt''] File"
    by (simp add: filter_path_def path_name_def path_suffix_def)
  show ?thesis
    using walker_single_file [of ?cfg "[''videos'', ''movie.mkv'']"]
      walker_single_file [of ?cfg "[''videos'', ''notes.txt'']"] a b
    by simp
qed

section \<open>Properties of the dictionaries\<close>

lemma ebind_Inr_iff: "ebind m f = Inr y \<longleftrightarrow> (\<exists>x. m = Inr x \<and> f x = Inr y)"
  by (cases m) auto

lemma py_key_eq_refl [simp]: "py_key_eq a a"
  by (simp add: py_key_eq_def split: option.splits)

lemma py_key_eq_sym: "py_key_eq a b \<Longrightarrow> py_key_eq b a"
  by (auto simp: py_key_eq_def split: option.splits)

lemma py_key_eq_trans: "py_key_eq a b \<Longrightarrow> py_key_eq b c \<Longrightarrow> py_key_eq a c"
  by (auto simp: py_key_eq_def split: option.splits)

lemma py_key_eq_cong: "py_key_eq a b \<Longrightarrow> py_key_eq a c = py_key_eq b c"
  by (meson py_key_eq_sym py_key_eq_trans)

lemma pd_lookup_cong: "py_key_eq k k' \<Longrightarrow> pd_lookup d k = pd_lookup d k'"
proof (induction d)
  case Nil
  then show ?case by simp
next
  case (Cons kv d)
  obtain k0 v0 where kv: "kv = (k0, v0)" by (cases kv)
  have "py_key_eq k0 k = py_key_eq k0 k'"
    using Cons.prems by (meson py_key_eq_sym py_key_eq_trans)
  with Cons kv show ?case by simp
qed

lemma pd_lookup_update:
  "pd_lookup (pd_update d k v) k' = (if py_key_eq k k' then Some v else pd_lookup d k')"
proof (induction d)
  case Nil
  then show ?case by simp
next
  case (Cons kv d)
  obtain k0 v0 where kv: "kv = (k0, v0)" by (cases kv)
  show ?case
  proof (cases "py_key_eq k0 k")
    case True
    then have "py_key_eq k0 k' = py_key_eq k k'" by (rule py_key_eq_cong)
    with True kv show ?thesis by simp
  next
    case False
    with kv Cons.IH show ?thesis
      by (auto dest: py_key_eq_sym py_key_eq_trans)
  qed
qed

lemma pd_update_absent: "pd_lookup d k = None \<Longrightarrow> pd_update d k v = d @ [(k, v)]"
  by (induction d) (auto split: if_splits)

lemma pd_lookup_append:
  "pd_lookup (d @ e) k = (case pd_lookup d k of Some v \<Rightarrow> Some v | None \<Rightarrow> pd_lookup e k)"
  by (induction d) auto

lemma pd_distinct_append_one:
  "pd_distinct d \<Longrightarrow> pd_lookup d k = None \<Longrightarrow> pd_distinct (d @ [(k, v)])"
proof (induction d)
  case Nil
  then show ?case by simp
next
  case (Cons kv d)
  obtain k0 v0 where kv: "kv = (k0, v0)" by (cases kv)
  from Cons.prems kv have nk: "\<not> py_key_eq k0 k" and "pd_lookup d k = None"
    by (auto split: if_splits)
  moreover from nk have "\<not> py_key_eq k k0" by (blast dest: py_key_eq_sym)
  ultimately show ?case using Cons kv by (simp add: pd_lookup_append)
qed

lemma pd_lookup_map:
  "pd_lookup (map (\<lambda>kv. (fst kv, f (snd kv))) d) k = map_option f (pd_lookup d k)"
  by (induction d) auto

lemma pd_update_map:
  "pd_update (map (\<lambda>kv. (fst kv, f (snd kv))) d) k (f v) = map (\<lambda>kv. (fst kv, f (snd kv))) (pd_update d k v)"
  by (induction d) auto

lemma pd_distinct_map:
  "pd_distinct (map (\<lambda>kv. (fst kv, f (snd kv))) d) = pd_distinct d"
  by (induction d) (auto simp: pd_lookup_map)

lemma first_wins_map:
  "first_wins (map (\<lambda>kv. (fst kv, f (snd kv))) d) (k, f v) = map (\<lambda>kv. (fst kv, f (snd kv))) (first_wins d (k, v))"
  by (simp add: first_wins_def pd_lookup_map pd_update_map)

lemma first_wins_lookup:
  "pd_lookup (first_wins d kv) k = pd_lookup (d @ [kv]) k"
proof (cases "pd_lookup d (fst kv)")
  case None
  then show ?thesis by (cases kv) (simp add: first_wins_def pd_update_absent)
next
  case (Some v)
  obtain k0 v0 where kv: "kv = (k0, v0)" by (cases kv)
  have "pd_lookup d k \<noteq> None" if "py_key_eq k0 k"
    using Some kv pd_lookup_cong [OF that, of d] by simp
  with Some kv show ?thesis
    by (auto simp: first_wins_def pd_lookup_append split: option.splits)
qed

lemma first_wins_distinct: "pd_distinct d \<Longrightarrow> pd_distinct (first_wins d kv)"
  by (cases kv) (auto simp: first_wins_def pd_update_absent pd_distinct_append_one)

lemma foldl_first_wins_lookup:
  "pd_lookup (foldl first_wins d ps) k = pd_lookup (d @ ps) k"
proof (induction ps arbitrary: d)
  case Nil
  then show ?case by simp
next
  case (Cons p ps)
  have "pd_lookup (foldl first_wins (first_wins d p) ps) k = pd_lookup (first_wins d p @ ps) k"
    by (rule Cons.IH)
  also have "\<dots> = pd_lookup ((d @ [p]) @ ps) k"
    by (simp only: pd_lookup_append [of _ ps] first_wins_lookup)
  finally show ?case by simp
qed

lemma foldl_first_wins_distinct:
  "pd_distinct d \<Longrightarrow> pd_distinct (foldl first_wins d ps)"
  by (induction ps arbitrary: d) (auto simp: first_wins_distinct)

section \<open>Properties of the classification\<close>

lemma pd_contains_simps:
  "hashable k \<Longrightarrow> pd_contains d k = Inr (pd_lookup d k \<noteq> None)"
  "\<not> hashable k \<Longrightarrow> pd_contains d k = Inl TypeError"
  by (simp_all add: pd_contains_def)

lemma pd_set_simps:
  "hashable k \<Longrightarrow> pd_set d k v = Inr (pd_update d k v)"
  "\<not> hashable k \<Longrightarrow> pd_set d k v = Inl TypeError"
  by (simp_all add: pd_set_def)

text \<open>What one turn of the loop does to a stream of each type.\<close>

lemma classify_track_video:
  assumes "dict_get track ''codec_type'' (PStr ''Unknown'') = Inr (PStr ''video'')"
  shows "classify_track rt track self =
     ebind (extract_video_info rt track) (\<lambda>data.
       if vt_index data = PNone then Inr self
       else if \<not> hashable (vt_index data) then Inl TypeError
       else Inr (self\<lparr> mi_video_tracks := first_wins (mi_video_tracks self) (vt_index data, data),
                        mi_tracks := pd_update (mi_tracks self) (vt_index data) ''video'',
                        mi_tracks_by_type := by_type_append (mi_tracks_by_type self) ''video'' (vt_index data) \<rparr>))"
proof (cases "extract_video_info rt track")
  case (Inl e)
  then show ?thesis using assms by (simp add: classify_track_def)
next
  case (Inr data)
  then show ?thesis using assms
    by (simp add: classify_track_def register_track_def first_wins_def pd_contains_simps pd_set_simps)
qed

lemma classify_track_audio:
  assumes "dict_get track ''codec_type'' (PStr ''Unknown'') = Inr (PStr ''audio'')"
  shows "classify_track rt track self =
     ebind (extract_audio_info rt track) (\<lambda>data.
       if at_index data = PNone then Inr self
       else if \<not> hashable (at_index data) then Inl TypeError
       else Inr (self\<lparr> mi_audio_tracks := first_wins (mi_audio_tracks self) (at_index data, data),
                        mi_tracks := pd_update (mi_tracks self) (at_index data) ''audio'',
                        mi_tracks_by_type := by_type_append (mi_tracks_by_type self) ''audio'' (at_index data) \<rparr>))"
proof (cases "extract_audio_info rt track")
  case (Inl e)
  then show ?thesis using assms by (simp add: classify_track_def)
next
  case (Inr data)
  then show ?thesis using assms
    by (simp add: classify_track_def register_track_def first_wins_def pd_contains_simps pd_set_simps)
qed

lemma classify_track_subtitle:
  assumes "dict_get track ''codec_type'' (PStr ''Unknown'') = Inr (PStr ''subtitle'')"
  shows "classify_track rt track self =
     ebind (extract_subtitle_info rt track) (\<lambda>data.
       if st_index data = PNone then Inr self
       else if \<not> hashable (st_index data) then Inl TypeError
       else Inr (self\<lparr> mi_subtitle_tracks := first_wins (mi_subtitle_tracks self) (st_index data, data),
                        mi_tracks := pd_update (mi_tracks self) (st_index data) ''subtitle'',
                        mi_tracks_by_type := by_type_append (mi_tracks_by_type self) ''subtitle'' (st_index data) \<rparr>))"
proof (cases "extract_subtitle_info rt track")
  case (Inl e)
  then show ?thesis using assms by (simp add: classify_track_def)
next
  case (Inr data)
  then show ?thesis using assms
    by (simp add: classify_track_def register_track_def first_wins_def pd_contains_simps pd_set_simps)
qed

lemma classify_track_attachment:
  assumes "dict_get track ''codec_type'' (PStr ''Unknown'') = Inr (PStr ''attachment'')"
  shows "classify_track rt track self =
     ebind (extract_attach_info track) (\<lambda>data.
       if ak_index data = PNone then Inr self
       else if \<not> hashable (ak_index data) then Inl TypeError
       else Inr (self\<lparr> mi_attach_tracks := first_wins (mi_attach_tracks self) (ak_index data, data),
                        mi_attach_fonts := (if is_font track then mi_attach_fonts self + 1 else mi_attach_fonts self),
                        mi_tracks := pd_update (mi_tracks self) (ak_index data) ''attachment'',
                        mi_tracks_by_type := by_type_append (mi_tracks_by_type self) ''attachment'' (ak_index data) \<rparr>))"
proof (cases "extract_attach_info track")
  case (Inl e)
  then show ?thesis using assms by (simp add: classify_track_def)
next
  case (Inr data)
  from assms obtain kvs where "track = PDict kvs"
    by (cases track) (simp_all add: dict_get_def)
  then have cn: "dict_get track ''codec_name'' (PStr []) =
      Inr (case map_of kvs ''codec_name'' of None \<Rightarrow> PStr [] | Some v \<Rightarrow> v)"
    by (simp add: dict_get_def)
  show ?thesis using assms Inr cn
    by (simp add: classify_track_def register_track_def first_wins_def pd_contains_simps
        pd_set_simps is_font_def Let_def)
qed

lemma classify_track_other:
  assumes "stream_type track = None"
  shows "classify_track rt track self = Inr self \<or> classify_track rt track self = Inl AttributeError"
proof (cases "dict_get track ''codec_type'' (PStr ''Unknown'')")
  case (Inl e)
  then have "e = AttributeError" by (simp add: dict_get_def split: pyval.splits)
  with Inl show ?thesis by (simp add: classify_track_def)
next
  case (Inr t)
  with assms have "t \<noteq> PStr ''video''" "t \<noteq> PStr ''audio''" "t \<noteq> PStr ''subtitle''" "t \<noteq> PStr ''attachment''"
    by (auto simp: stream_type_def track_types_def)
  with Inr show ?thesis by (simp add: classify_track_def)
qed

lemma stream_type_cases:
  assumes "stream_type track = Some t"
  shows "dict_get track ''codec_type'' (PStr ''Unknown'') = Inr (PStr t)"
    and "t = ''video'' \<or> t = ''audio'' \<or> t = ''subtitle'' \<or> t = ''attachment''"
  using assms
  by (auto simp: stream_type_def track_types_def split: sum.splits pyval.splits if_splits)

lemma bucket_simps [simp]:
  "bucket (self\<lparr> mi_tracks := a \<rparr>) t = bucket self t"
  "bucket (self\<lparr> mi_tracks_by_type := b \<rparr>) t = bucket self t"
  "bucket (self\<lparr> mi_attach_fonts := c \<rparr>) t = bucket self t"
  by (simp_all add: bucket_def)

lemma map_first_wins:
  "map (\<lambda>kv. (fst kv, f (snd kv))) (first_wins d (k, v)) = first_wins (map (\<lambda>kv. (fst kv, f (snd kv))) d) (k, f v)"
  by (simp add: first_wins_map)

lemma classify_track_effect:
  assumes st: "stream_type track = Some t"
    and ex: "extract_track rt t track = Inr data"
    and nn: "track_index data \<noteq> PNone"
    and ha: "hashable (track_index data)"
  shows "\<exists>self'. classify_track rt track self = Inr self'
           \<and> bucket self' t = first_wins (bucket self t) (track_index data, data)
           \<and> (\<forall>t'. t' \<noteq> t \<longrightarrow> bucket self' t' = bucket self t')
           \<and> mi_tracks self' = pd_update (mi_tracks self) (track_index data) t
           \<and> mi_tracks_by_type self' = by_type_append (mi_tracks_by_type self) t (track_index data)"
proof -
  note ct = stream_type_cases(1) [OF st]
  from stream_type_cases(2) [OF st] consider
    (v) "t = ''video''" | (a) "t = ''audio''" | (s) "t = ''subtitle''" | (k) "t = ''attachment''"
    by blast
  then show ?thesis
  proof cases
    case v
    with ex obtain d where d: "extract_video_info rt track = Inr d" "data = Video d"
      by (auto simp: extract_track_def ebind_Inr_iff)
    with ct v nn ha show ?thesis
      by (simp add: classify_track_video bucket_def map_first_wins)
  next
    case a
    with ex obtain d where d: "extract_audio_info rt track = Inr d" "data = Audio d"
      by (auto simp: extract_track_def ebind_Inr_iff)
    with ct a nn ha show ?thesis
      by (simp add: classify_track_audio bucket_def map_first_wins)
  next
    case s
    with ex obtain d where d: "extract_subtitle_info rt track = Inr d" "data = Subtitle d"
      by (auto simp: extract_track_def ebind_Inr_iff)
    with ct s nn ha show ?thesis
      by (simp add: classify_track_subtitle bucket_def map_first_wins)
  next
    case k
    with ex obtain d where d: "extract_attach_info track = Inr d" "data = Attach d"
      by (auto simp: extract_track_def ebind_Inr_iff)
    with ct k nn ha show ?thesis
      by (simp add: classify_track_attachment bucket_def map_first_wins)
  qed
qed

lemma classify_track_typed:
  assumes st: "stream_type track = Some t"
  shows "classify_track rt track self =
     (case extract_track rt t track of
        Inl e \<Rightarrow> Inl e
      | Inr data \<Rightarrow>
          if track_index data = PNone then Inr self
          else if \<not> hashable (track_index data) then Inl TypeError
          else classify_track rt track self)"
proof -
  note ct = stream_type_cases(1) [OF st]
  from stream_type_cases(2) [OF st] consider
    (v) "t = ''video''" | (a) "t = ''audio''" | (s) "t = ''subtitle''" | (k) "t = ''attachment''"
    by blast
  then show ?thesis
  proof cases
    case v
    with ct show ?thesis
      by (cases "extract_video_info rt track") (simp_all add: classify_track_video extract_track_def)
  next
    case a
    with ct show ?thesis
      by (cases "extract_audio_info rt track") (simp_all add: classify_track_audio extract_track_def)
  next
    case s
    with ct show ?thesis
      by (cases "extract_subtitle_info rt track") (simp_all add: classify_track_subtitle extract_track_def)
  next
    case k
    with ct show ?thesis
      by (cases "extract_attach_info track") (simp_all add: classify_track_attachment extract_track_def)
  qed
qed

text \<open>A turn of the loop that ends without an exception, read through the buckets.\<close>

lemma classify_track_bucket:
  assumes "classify_track rt track self = Inr self'"
  shows "bucket self' t = foldl first_wins (bucket self t) (typed_pairs rt t [track])"
proof (cases "stream_type track")
  case None
  with assms classify_track_other [OF None, of rt self] have "self' = self" by auto
  with None show ?thesis by (simp add: typed_pairs_def)
next
  case (Some t0)
  show ?thesis
  proof (cases "extract_track rt t0 track")
    case (Inl e)
    with assms classify_track_typed [OF Some, of rt self] show ?thesis by simp
  next
    case (Inr data)
    show ?thesis
    proof (cases "track_index data = PNone")
      case True
      with assms Inr classify_track_typed [OF Some, of rt self] have "self' = self" by simp
      with Some Inr True show ?thesis by (auto simp: typed_pairs_def)
    next
      case False
      with assms Inr classify_track_typed [OF Some, of rt self] have ha: "hashable (track_index data)"
        by (auto split: if_splits)
      from classify_track_effect [OF Some Inr False ha, of self] assms
      have b: "bucket self' t0 = first_wins (bucket self t0) (track_index data, data)"
        and o: "\<forall>t'. t' \<noteq> t0 \<longrightarrow> bucket self' t' = bucket self t'"
        by auto
      show ?thesis
      proof (cases "t = t0")
        case True
        with b Some Inr False show ?thesis by (simp add: typed_pairs_def)
      next
        case False
        with o Some show ?thesis by (simp add: typed_pairs_def)
      qed
    qed
  qed
qed

lemma typed_pairs_Cons:
  "typed_pairs rt t (track # tracks) = typed_pairs rt t [track] @ typed_pairs rt t tracks"
  by (simp add: typed_pairs_def)

lemma classify_all_bucket:
  assumes "classify_all rt tracks self = Inr self'"
  shows "bucket self' t = foldl first_wins (bucket self t) (typed_pairs rt t tracks)"
  using assms
proof (induction tracks arbitrary: self)
  case Nil
  then show ?case by (simp add: typed_pairs_def)
next
  case (Cons track tracks)
  from Cons.prems obtain self1 where s1: "classify_track rt track self = Inr self1"
    and s2: "classify_all rt tracks self1 = Inr self'"
    by (auto simp: ebind_Inr_iff)
  from Cons.IH [OF s2] classify_track_bucket [OF s1, of t]
  show ?case by (simp add: typed_pairs_Cons [of rt t track tracks])
qed

lemma map_of_by_type_append:
  "map_of (by_type_append d t i) t' =
     (if t' = t then Some ((case map_of d t of None \<Rightarrow> [] | Some l \<Rightarrow> l) @ [i]) else map_of d t')"
  by (induction d) auto

lemma tracks_by_type_append:
  "mi_tracks_by_type self' = by_type_append (mi_tracks_by_type self) t i \<Longrightarrow>
   tracks_by_type self' t' = (if t' = t then tracks_by_type self t @ [i] else tracks_by_type self t')"
  by (simp add: tracks_by_type_def map_of_by_type_append)

lemma total_of_type_bucket:
  "List.member track_types t \<Longrightarrow> total_of_type self t = length (bucket self t)"
  by (auto simp: total_of_type_def bucket_def track_types_def total_video_tracks_def
      total_audio_tracks_def total_subtitle_tracks_def total_attach_tracks_def)

lemma stream_type_member: "stream_type track = Some t \<Longrightarrow> List.member track_types t"
  by (auto simp: stream_type_def split: sum.splits pyval.splits if_splits)

lemma bucket_fresh [simp]: "bucket (fresh_object p raw fd) t = []"
  by (simp add: bucket_def fresh_object_def)

lemma py_key_eq_not_None: "py_key_eq a b \<Longrightarrow> a \<noteq> PNone \<Longrightarrow> b \<noteq> PNone"
  by (auto simp: py_key_eq_def split: option.splits)

lemma py_key_eq_hashable: "py_key_eq a b \<Longrightarrow> hashable a \<Longrightarrow> hashable b"
  by (cases a; cases b) (auto simp: py_key_eq_def split: option.splits)

text \<open>
  A document of two streams of one type with equal indices: the whole result of the
  loop on a new object.
\<close>

lemma two_streams_same_index:
  assumes t1: "stream_type track1 = Some t" and t2: "stream_type track2 = Some t"
    and e1: "extract_track rt t track1 = Inr d1" and e2: "extract_track rt t track2 = Inr d2"
    and nn: "track_index d1 \<noteq> PNone" and ha: "hashable (track_index d1)"
    and eq: "py_key_eq (track_index d1) (track_index d2)"
  shows "\<exists>self'. classify_all rt [track1, track2] (fresh_object p raw fd) = Inr self'
           \<and> bucket self' t = [(track_index d1, d1)]
           \<and> mi_tracks self' = [(track_index d1, t)]
           \<and> tracks_by_type self' t = [track_index d1, track_index d2]"
proof -
  let ?s0 = "fresh_object p raw fd"
  from classify_track_effect [OF t1 e1 nn ha, of ?s0]
  obtain s1 where c1: "classify_track rt track1 ?s0 = Inr s1"
    and b1: "bucket s1 t = first_wins (bucket ?s0 t) (track_index d1, d1)"
    and m1: "mi_tracks s1 = pd_update (mi_tracks ?s0) (track_index d1) t"
    and y1: "mi_tracks_by_type s1 = by_type_append (mi_tracks_by_type ?s0) t (track_index d1)"
    by blast
  have nn2: "track_index d2 \<noteq> PNone" using eq nn by (rule py_key_eq_not_None)
  have ha2: "hashable (track_index d2)" using eq ha by (rule py_key_eq_hashable)
  from classify_track_effect [OF t2 e2 nn2 ha2, of s1]
  obtain s2 where c2: "classify_track rt track2 s1 = Inr s2"
    and b2: "bucket s2 t = first_wins (bucket s1 t) (track_index d2, d2)"
    and m2: "mi_tracks s2 = pd_update (mi_tracks s1) (track_index d2) t"
    and y2: "mi_tracks_by_type s2 = by_type_append (mi_tracks_by_type s1) t (track_index d2)"
    by blast
  have "classify_all rt [track1, track2] ?s0 = Inr s2"
    using c1 c2 by simp
  moreover have "bucket s1 t = [(track_index d1, d1)]"
    using b1 by (simp add: first_wins_def)
  then have "bucket s2 t = [(track_index d1, d1)]"
    using b2 eq by (simp add: first_wins_def)
  moreover have "mi_tracks s1 = [(track_index d1, t)]"
    using m1 by (simp add: fresh_object_def)
  then have "mi_tracks s2 = [(track_index d1, t)]"
    using m2 eq by simp
  moreover have "tracks_by_type s1 t = [track_index d1]"
    using tracks_by_type_append [OF y1, of t] by (simp add: tracks_by_type_def fresh_object_def)
  then have "tracks_by_type s2 t = [track_index d1, track_index d2]"
    using tracks_by_type_append [OF y2, of t] by simp
  ultimately show ?thesis by blast
qed

text \<open>\<^verbatim>\<open>_get_tracks_data\<close> is the classification of the streams of the document, in order.\<close>

lemma get_tracks_data_document:
  assumes "get_tracks_data rt self = Inr self'"
  shows "classify_all rt (document_streams (mi_raw_info self)) self = Inr self'"
  using assms
  by (auto simp: get_tracks_data_def document_streams_def ebind_Inr_iff)

lemma get_tracks_data_streams:
  assumes "document_streams (mi_raw_info self) = ts" and "ts \<noteq> []"
  shows "get_tracks_data rt self = classify_all rt ts self"
  using assms
  by (auto simp: get_tracks_data_def document_streams_def split: sum.splits)

lemma raw_info_fresh [simp]: "mi_raw_info (fresh_object p raw fd) = raw"
  by (simp add: fresh_object_def)

text \<open>
  Claim C6. A document of two streams of one type that report the same index: the loop
  ends without an exception, the bucket of the type holds the record of the first
  stream alone, and the total of the type is 1. In the buckets that the loop leaves for
  any document, no two indices are equal, and an index leads to the record of the first
  stream of the type that reported it.
\<close>

theorem duplicate_index_first_wins:
  "(\<forall>track1 track2 t d1 d2.
      document_streams raw = [track1, track2]
      \<and> stream_type track1 = Some t \<and> stream_type track2 = Some t
      \<and> extract_track rt t track1 = Inr d1 \<and> extract_track rt t track2 = Inr d2
      \<and> track_index d1 \<noteq> PNone \<and> hashable (track_index d1)
      \<and> py_key_eq (track_index d1) (track_index d2)
      \<longrightarrow> (\<exists>self'. get_tracks_data rt (fresh_object p raw fd) = Inr self'
             \<and> bucket self' t = [(track_index d1, d1)]
             \<and> total_of_type self' t = 1))
   \<and> (\<forall>self' t.
        get_tracks_data rt (fresh_object p raw fd) = Inr self'
        \<longrightarrow> pd_distinct (bucket self' t)
            \<and> (\<forall>k. pd_lookup (bucket self' t) k
                     = pd_lookup (typed_pairs rt t (document_streams raw)) k))"
proof (intro conjI allI impI)
  fix track1 track2 t d1 d2
  assume h: "document_streams raw = [track1, track2]
      \<and> stream_type track1 = Some t \<and> stream_type track2 = Some t
      \<and> extract_track rt t track1 = Inr d1 \<and> extract_track rt t track2 = Inr d2
      \<and> track_index d1 \<noteq> PNone \<and> hashable (track_index d1)
      \<and> py_key_eq (track_index d1) (track_index d2)"
  then have m: "List.member track_types t" by (blast intro: stream_type_member)
  from h have g: "get_tracks_data rt (fresh_object p raw fd)
      = classify_all rt [track1, track2] (fresh_object p raw fd)"
    by (simp add: get_tracks_data_streams)
  from h two_streams_same_index [of track1 t track2 rt d1 d2 p raw fd]
  obtain self' where "classify_all rt [track1, track2] (fresh_object p raw fd) = Inr self'"
    and "bucket self' t = [(track_index d1, d1)]"
    by blast
  then show "\<exists>self'. get_tracks_data rt (fresh_object p raw fd) = Inr self'
             \<and> bucket self' t = [(track_index d1, d1)]
             \<and> total_of_type self' t = 1"
    using m g by (simp add: total_of_type_bucket)
next
  fix self' t
  assume "get_tracks_data rt (fresh_object p raw fd) = Inr self'"
  then have "classify_all rt (document_streams raw) (fresh_object p raw fd) = Inr self'"
    using get_tracks_data_document [of rt "fresh_object p raw fd" self'] by simp
  then have b: "bucket self' t = foldl first_wins [] (typed_pairs rt t (document_streams raw))"
    using classify_all_bucket [of rt "document_streams raw" "fresh_object p raw fd" self' t] by simp
  show "pd_distinct (bucket self' t)"
    unfolding b by (rule foldl_first_wins_distinct) simp
  fix k
  show "pd_lookup (bucket self' t) k = pd_lookup (typed_pairs rt t (document_streams raw)) k"
    unfolding b by (simp add: foldl_first_wins_lookup)
qed

theorem duplicate_index_first_wins_witness:
  "\<exists>self'. get_tracks_data example_runtime
              (fresh_object [''m.mkv''] example_document_two_audio example_format_data) = Inr self'
     \<and> bucket self' ''audio'' =
         [(PInt 1, Audio \<lparr> at_index = PInt 1, at_codec = PStr ''aac'', at_channels = PInt 0,
                            at_sample_rate = PInt 0, at_language = PStr ''Unknown'',
                            at_bit_depth = PInt 0, at_duration = PInt 0 \<rparr>)]
     \<and> total_of_type self' ''audio'' = 1"
proof -
  let ?d1 = "Audio \<lparr> at_index = PInt 1, at_codec = PStr ''aac'', at_channels = PInt 0,
                     at_sample_rate = PInt 0, at_language = PStr ''Unknown'',
                     at_bit_depth = PInt 0, at_duration = PInt 0 \<rparr>"
  let ?d2 = "Audio \<lparr> at_index = PInt 1, at_codec = PStr ''ac3'', at_channels = PInt 0,
                     at_sample_rate = PInt 0, at_language = PStr ''Unknown'',
                     at_bit_depth = PInt 0, at_duration = PInt 0 \<rparr>"
  have s: "document_streams example_document_two_audio = [example_audio_1, example_audio_2]"
    by (simp add: document_streams_def example_document_two_audio_def dict_get_def)
  have a: "stream_type example_audio_1 = Some ''audio''"
    by (simp add: stream_type_def example_audio_1_def dict_get_def track_types_def)
  have b: "stream_type example_audio_2 = Some ''audio''"
    by (simp add: stream_type_def example_audio_2_def dict_get_def track_types_def)
  have c: "extract_track example_runtime ''audio'' example_audio_1 = Inr ?d1"
    by (simp add: extract_track_def extract_audio_info_def example_audio_1_def dict_get_def
        table_get_def example_runtime_def)
  have d: "extract_track example_runtime ''audio'' example_audio_2 = Inr ?d2"
    by (simp add: extract_track_def extract_audio_info_def example_audio_2_def dict_get_def
        table_get_def example_runtime_def)
  have e: "track_index ?d1 \<noteq> PNone \<and> hashable (track_index ?d1)
           \<and> py_key_eq (track_index ?d1) (track_index ?d2)"
    by simp
  have "\<exists>self'. get_tracks_data example_runtime
              (fresh_object [''m.mkv''] example_document_two_audio example_format_data) = Inr self'
     \<and> bucket self' ''audio'' = [(track_index ?d1, ?d1)]
     \<and> total_of_type self' ''audio'' = 1"
    using duplicate_index_first_wins
            [of example_document_two_audio example_runtime "[''m.mkv'']" example_format_data]
          s a b c d e
    by blast
  then show ?thesis by simp
qed

text \<open>
  Claim C10. A stream of a recognised type with an index other than \<^verbatim>\<open>None\<close> has its
  index appended to the list of its type and entered in the map from indices to types,
  also when its index is already in the bucket and the bucket stays as it is. After a
  document of two streams of one type with equal indices, the list of the type holds
  both indices, it is longer than the bucket, and the map from indices to types has one
  entry.
\<close>

theorem duplicate_index_still_listed:
  "(\<forall>track t data self.
      stream_type track = Some t \<and> extract_track rt t track = Inr data
      \<and> track_index data \<noteq> PNone \<and> hashable (track_index data)
      \<longrightarrow> (\<exists>self'. classify_track rt track self = Inr self'
             \<and> tracks_by_type self' t = tracks_by_type self t @ [track_index data]
             \<and> pd_lookup (mi_tracks self') (track_index data) = Some t
             \<and> (pd_lookup (bucket self t) (track_index data) \<noteq> None \<longrightarrow> bucket self' t = bucket self t)))
   \<and> (\<forall>track1 track2 t d1 d2.
        document_streams raw = [track1, track2]
        \<and> stream_type track1 = Some t \<and> stream_type track2 = Some t
        \<and> extract_track rt t track1 = Inr d1 \<and> extract_track rt t track2 = Inr d2
        \<and> track_index d1 \<noteq> PNone \<and> hashable (track_index d1)
        \<and> py_key_eq (track_index d1) (track_index d2)
        \<longrightarrow> (\<exists>self'. get_tracks_data rt (fresh_object p raw fd) = Inr self'
               \<and> tracks_by_type self' t = [track_index d1, track_index d2]
               \<and> total_of_type self' t = 1
               \<and> total_of_type self' t < length (tracks_by_type self' t)
               \<and> total_tracks self' = 1))"
proof (intro conjI allI impI)
  fix track t data self
  assume h: "stream_type track = Some t \<and> extract_track rt t track = Inr data
      \<and> track_index data \<noteq> PNone \<and> hashable (track_index data)"
  with classify_track_effect [of track t rt data self]
  obtain self' where c: "classify_track rt track self = Inr self'"
    and b: "bucket self' t = first_wins (bucket self t) (track_index data, data)"
    and m: "mi_tracks self' = pd_update (mi_tracks self) (track_index data) t"
    and y: "mi_tracks_by_type self' = by_type_append (mi_tracks_by_type self) t (track_index data)"
    by blast
  have "tracks_by_type self' t = tracks_by_type self t @ [track_index data]"
    using tracks_by_type_append [OF y, of t] by simp
  moreover have "pd_lookup (mi_tracks self') (track_index data) = Some t"
    using m by (simp add: pd_lookup_update)
  moreover have "pd_lookup (bucket self t) (track_index data) \<noteq> None \<longrightarrow> bucket self' t = bucket self t"
    using b by (simp add: first_wins_def)
  ultimately show "\<exists>self'. classify_track rt track self = Inr self'
             \<and> tracks_by_type self' t = tracks_by_type self t @ [track_index data]
             \<and> pd_lookup (mi_tracks self') (track_index data) = Some t
             \<and> (pd_lookup (bucket self t) (track_index data) \<noteq> None \<longrightarrow> bucket self' t = bucket self t)"
    using c by blast
next
  fix track1 track2 t d1 d2
  assume h: "document_streams raw = [track1, track2]
      \<and> stream_type track1 = Some t \<and> stream_type track2 = Some t
      \<and> extract_track rt t track1 = Inr d1 \<and> extract_track rt t track2 = Inr d2
      \<and> track_index d1 \<noteq> PNone \<and> hashable (track_index d1)
      \<and> py_key_eq (track_index d1) (track_index d2)"
  then have mem: "List.member track_types t" by (blast intro: stream_type_member)
  from h have g: "get_tracks_data rt (fresh_object p raw fd)
      = classify_all rt [track1, track2] (fresh_object p raw fd)"
    by (simp add: get_tracks_data_streams)
  from h two_streams_same_index [of track1 t track2 rt d1 d2 p raw fd]
  obtain self' where c: "classify_all rt [track1, track2] (fresh_object p raw fd) = Inr self'"
    and b: "bucket self' t = [(track_index d1, d1)]"
    and m: "mi_tracks self' = [(track_index d1, t)]"
    and y: "tracks_by_type self' t = [track_index d1, track_index d2]"
    by blast
  from b mem have "total_of_type self' t = 1" by (simp add: total_of_type_bucket)
  moreover from m have "total_tracks self' = 1" by (simp add: total_tracks_def)
  ultimately show "\<exists>self'. get_tracks_data rt (fresh_object p raw fd) = Inr self'
               \<and> tracks_by_type self' t = [track_index d1, track_index d2]
               \<and> total_of_type self' t = 1
               \<and> total_of_type self' t < length (tracks_by_type self' t)
               \<and> total_tracks self' = 1"
    using c y g by auto
qed

theorem duplicate_index_still_listed_witness:
  "\<exists>self'. get_tracks_data example_runtime
              (fresh_object [''m.mkv''] example_document_two_audio example_format_data) = Inr self'
     \<and> tracks_by_type self' ''audio'' = [PInt 1, PInt 1]
     \<and> total_of_type self' ''audio'' = 1
     \<and> total_of_type self' ''audio'' < length (tracks_by_type self' ''audio'')
     \<and> total_tracks self' = 1"
proof -
  let ?d1 = "Audio \<lparr> at_index = PInt 1, at_codec = PStr ''aac'', at_channels = PInt 0,
                     at_sample_rate = PInt 0, at_language = PStr ''Unknown'',
                     at_bit_depth = PInt 0, at_duration = PInt 0 \<rparr>"
  let ?d2 = "Audio \<lparr> at_index = PInt 1, at_codec = PStr ''ac3'', at_channels = PInt 0,
                     at_sample_rate = PInt 0, at_language = PStr ''Unknown'',
                     at_bit_depth = PInt 0, at_duration = PInt 0 \<rparr>"
  have s: "document_streams example_document_two_audio = [example_audio_1, example_audio_2]"
    by (simp add: document_streams_def example_document_two_audio_def dict_get_def)
  have a: "stream_type example_audio_1 = Some ''audio''"
    by (simp add: stream_type_def example_audio_1_def dict_get_def track_types_def)
  have b: "stream_type example_audio_2 = Some ''audio''"
    by (simp add: stream_type_def example_audio_2_def dict_get_def track_types_def)
  have c: "extract_track example_runtime ''audio'' example_audio_1 = Inr ?d1"
    by (simp add: extract_track_def extract_audio_info_def example_audio_1_def dict_get_def
        table_get_def example_runtime_def)
  have d: "extract_track example_runtime ''audio'' example_audio_2 = Inr ?d2"
    by (simp add: extract_track_def extract_audio_info_def example_audio_2_def dict_get_def
        table_get_def example_runtime_def)
  have e: "track_index ?d1 \<noteq> PNone \<and> hashable (track_index ?d1)
           \<and> py_key_eq (track_index ?d1) (track_index ?d2)"
    by simp
  have "\<exists>self'. get_tracks_data example_runtime
              (fresh_object [''m.mkv''] example_document_two_audio example_format_data) = Inr self'
     \<and> tracks_by_type self' ''audio'' = [track_index ?d1, track_index ?d2]
     \<and> total_of_type self' ''audio'' = 1
     \<and> total_of_type self' ''audio'' < length (tracks_by_type self' ''audio'')
     \<and> total_tracks self' = 1"
    using duplicate_index_still_listed
            [of example_runtime example_document_two_audio "[''m.mkv'']" example_format_data]
          s a b c d e
    by blast
  then show ?thesis by simp
qed

section \<open>Properties of the extractors\<close>


lemma dict_get_Inr_iff:
  "dict_get d k dflt = Inr v \<longleftrightarrow>
     (\<exists>kvs. d = PDict kvs \<and> v = (case map_of kvs k of None \<Rightarrow> dflt | Some x \<Rightarrow> x))"
  by (cases d) (auto simp: dict_get_def)


lemma get_format_data_Inr:
  assumes "get_format_data raw st = Inr (fd, st')"
  shows "\<exists>f t.
           dict_get raw ''format'' (PDict []) = Inr (PDict f)
         \<and> (case map_of f ''tags'' of None \<Rightarrow> PDict [] | Some v \<Rightarrow> v) = PDict t
         \<and> py_int (case map_of f ''size'' of None \<Rightarrow> PInt 0 | Some v \<Rightarrow> v) = Inr (fd_size fd)
         \<and> py_float (case map_of f ''duration'' of None \<Rightarrow> PInt 0 | Some v \<Rightarrow> v) = Inr (fd_duration fd)
         \<and> convert_duration_to_str (fd_duration fd) = Inr (fd_duration_str fd)
         \<and> py_int (case map_of f ''probe_score'' of None \<Rightarrow> PInt 0 | Some v \<Rightarrow> v) = Inr (fd_score fd)
         \<and> py_int (case map_of f ''bit_rate'' of None \<Rightarrow> PInt 0 | Some v \<Rightarrow> v) = Inr (fd_bitrate fd)
         \<and> fd_format fd = (case map_of f ''format_name'' of None \<Rightarrow> PStr ''Unknown'' | Some v \<Rightarrow> v)
         \<and> fd_format_long_name fd = (case map_of f ''format_long_name'' of None \<Rightarrow> fd_format fd | Some v \<Rightarrow> v)
         \<and> fd_encoder fd = (case map_of t ''ENCODER'' of None \<Rightarrow> PStr ''Unknown'' | Some v \<Rightarrow> v)
         \<and> fd_encoding_info fd = (case map_of t ''ENCODING_INFO'' of None \<Rightarrow> PStr ''Unknown'' | Some v \<Rightarrow> v)
         \<and> st' = st\<lparr> cls_total_file_size := cls_total_file_size st + fd_size fd \<rparr>"
  using assms
  by (auto simp: get_format_data_def ebind_Inr_iff dict_get_Inr_iff Let_def)
    (simp split: option.splits)














section \<open>Properties of the constructor\<close>

lemma map_of_assoc_set: "map_of (assoc_set d k v) k' = (if k' = k then Some v else map_of d k')"
  by (induction d) auto

lemma assoc_set_fresh: "map_of d k = None \<Longrightarrow> assoc_set d k v = d @ [(k, v)]"
  by (induction d) (auto split: if_splits)

lemma str_keyed_no_path: "str_keyed st \<Longrightarrow> map_of (cls_files st) (KPath p) = None"
proof -
  have "list_all (\<lambda>kv. case fst kv of KStr s \<Rightarrow> True | KPath p \<Rightarrow> False) d \<Longrightarrow> map_of d (KPath p) = None" for d
    by (induction d) (auto split: pykey.splits)
  then show "str_keyed st \<Longrightarrow> map_of (cls_files st) (KPath p) = None"
    by (simp add: str_keyed_def)
qed

lemma str_keyed_assoc_set:
  "list_all (\<lambda>kv. case fst kv of KStr s \<Rightarrow> True | KPath p \<Rightarrow> False) d \<Longrightarrow>
   list_all (\<lambda>kv. case fst kv of KStr s \<Rightarrow> True | KPath p \<Rightarrow> False) (assoc_set d (KStr s) v)"
  by (induction d) auto

text \<open>\<^verbatim>\<open>__new__\<close> makes a new object at every call.\<close>

lemma MediaInfo_new_fresh:
  assumes "str_keyed st"
  shows "MediaInfo_new p st =
     Inr (length (heap st),
          st\<lparr> heap := heap st @ [None],
              cls_files := assoc_set (cls_files st) (KStr (path_str p)) (length (heap st)) \<rparr>)"
  using str_keyed_no_path [OF assms, of p]
  by (simp add: MediaInfo_new_def map_of_assoc_set)

lemma get_raw_data_Inr:
  "get_raw_data w p st = Inr (raw, st') \<Longrightarrow> st' = st\<lparr> probed := probed st @ [p] \<rparr>"
  by (auto simp: get_raw_data_def split: option.splits if_splits run_result.splits)

lemma get_format_data_state:
  "get_format_data raw st = Inr (fd, st') \<Longrightarrow>
   st' = st\<lparr> cls_total_file_size := cls_total_file_size st + fd_size fd \<rparr>"
  using get_format_data_Inr [of raw st fd st'] by blast

lemma classify_track_file_path:
  assumes "classify_track rt track self = Inr self'"
  shows "mi_file_path self' = mi_file_path self \<and> mi_format_data self' = mi_format_data self"
proof (cases "stream_type track")
  case None
  with assms classify_track_other [OF None, of rt self] show ?thesis by auto
next
  case (Some t)
  note ct = stream_type_cases(1) [OF Some]
  from stream_type_cases(2) [OF Some] consider
    (v) "t = ''video''" | (a) "t = ''audio''" | (s) "t = ''subtitle''" | (k) "t = ''attachment''"
    by blast
  then show ?thesis
  proof cases
    case v
    with ct assms show ?thesis
      by (auto simp: classify_track_video ebind_Inr_iff split: if_splits)
  next
    case a
    with ct assms show ?thesis
      by (auto simp: classify_track_audio ebind_Inr_iff split: if_splits)
  next
    case s
    with ct assms show ?thesis
      by (auto simp: classify_track_subtitle ebind_Inr_iff split: if_splits)
  next
    case k
    with ct assms show ?thesis
      by (auto simp: classify_track_attachment ebind_Inr_iff split: if_splits)
  qed
qed

lemma classify_all_file_path:
  "classify_all rt tracks self = Inr self' \<Longrightarrow>
   mi_file_path self' = mi_file_path self \<and> mi_format_data self' = mi_format_data self"
proof (induction tracks arbitrary: self)
  case Nil
  then show ?case by simp
next
  case (Cons track tracks)
  then show ?case
    by (auto simp: ebind_Inr_iff dest: classify_track_file_path)
qed

lemma get_tracks_data_file_path:
  "get_tracks_data rt self = Inr self' \<Longrightarrow>
   mi_file_path self' = mi_file_path self \<and> mi_format_data self' = mi_format_data self"
  by (auto simp: get_tracks_data_def ebind_Inr_iff dest: classify_all_file_path)

text \<open>A call of the constructor that returns, in a state whose keys are strings.\<close>

lemma MediaInfo_Inr:
  assumes k: "str_keyed st" and c: "MediaInfo rt w p debug st = Inr (a, st')"
  shows "a = length (heap st)"
    and "length (heap st') = Suc (length (heap st))"
    and "probed st' = probed st @ [p]"
    and "str_keyed st'"
    and "\<exists>obj. heap_get st' a = Some obj \<and> mi_file_path obj = p"
    and "\<forall>b < length (heap st). heap_get st' b = heap_get st b"
    and "\<exists>n. cls_total_file_size st' = cls_total_file_size st + n
            \<and> (\<exists>obj. heap_get st' a = Some obj \<and> fd_size (mi_format_data obj) = n)"
proof -
  let ?st1 = "st\<lparr> heap := heap st @ [None],
                 cls_files := assoc_set (cls_files st) (KStr (path_str p)) (length (heap st)) \<rparr>"
  from c have i: "MediaInfo_init rt w (length (heap st)) p debug ?st1 = Inr st'" and a: "a = length (heap st)"
    by (auto simp: MediaInfo_def MediaInfo_new_fresh [OF k] ebind_Inr_iff)
  have hg: "heap_get ?st1 (length (heap st)) = None"
    by (simp add: heap_get_def)
  from i hg obtain raw st2 fd st3 obj where
    r: "get_raw_data w p (?st1\<lparr> cls_debug_mode := debug \<rparr>) = Inr (raw, st2)"
    and f: "get_format_data raw st2 = Inr (fd, st3)"
    and t: "get_tracks_data rt (fresh_object p raw fd) = Inr obj"
    and s: "st' = st3\<lparr> heap := (heap st3)[length (heap st) := Some obj] \<rparr>"
    by (auto simp: MediaInfo_init_def ebind_Inr_iff)
  note st2 = get_raw_data_Inr [OF r]
  note st3 = get_format_data_state [OF f]
  have fp: "mi_file_path obj = p"
    using get_tracks_data_file_path [OF t] by (simp add: fresh_object_def)
  have fdo: "mi_format_data obj = fd"
    using get_tracks_data_file_path [OF t] by (simp add: fresh_object_def)
  show "a = length (heap st)" by (rule a)
  show "length (heap st') = Suc (length (heap st))"
    by (simp add: s st3 st2)
  show "probed st' = probed st @ [p]"
    by (simp add: s st3 st2)
  show "str_keyed st'"
    using k by (simp add: s st3 st2 str_keyed_def str_keyed_assoc_set)
  show "\<exists>obj. heap_get st' a = Some obj \<and> mi_file_path obj = p"
    using fp by (simp add: s st3 st2 a heap_get_def)
  show "\<forall>b < length (heap st). heap_get st' b = heap_get st b"
    by (simp add: s st3 st2 heap_get_def nth_append)
  show "\<exists>n. cls_total_file_size st' = cls_total_file_size st + n
            \<and> (\<exists>obj. heap_get st' a = Some obj \<and> fd_size (mi_format_data obj) = n)"
    using fdo by (simp add: s st3 st2 a heap_get_def)
qed

section \<open>Properties of the number formats\<close>

lemma digit_table:
  "list_all (\<lambda>c. c \<noteq> CHR '':'' \<and> c \<noteq> CHR ''.'' \<and> c \<noteq> CHR ''_'' \<and> c \<noteq> CHR ''-'' \<and> c \<noteq> CHR ''+''
               \<and> c \<noteq> CHR ''e'' \<and> c \<noteq> CHR ''E'' \<and> \<not> is_space c \<and> lower_char c = c
               \<and> c \<noteq> CHR ''i'' \<and> c \<noteq> CHR ''n'') ''0123456789''"
  by code_simp

lemma is_digit_facts:
  assumes "is_digit c"
  shows "c \<noteq> CHR '':''" "c \<noteq> CHR ''.''" "c \<noteq> CHR ''_''" "c \<noteq> CHR ''-''" "c \<noteq> CHR ''+''"
    "c \<noteq> CHR ''e''" "c \<noteq> CHR ''E''" "\<not> is_space c" "lower_char c = c"
    "c \<noteq> CHR ''i''" "c \<noteq> CHR ''n''"
proof -
  from assms have "c \<in> set ''0123456789''" by (simp only: is_digit_def)
  with digit_table [unfolded list_all_iff]
  have "c \<noteq> CHR '':'' \<and> c \<noteq> CHR ''.'' \<and> c \<noteq> CHR ''_'' \<and> c \<noteq> CHR ''-'' \<and> c \<noteq> CHR ''+''
               \<and> c \<noteq> CHR ''e'' \<and> c \<noteq> CHR ''E'' \<and> \<not> is_space c \<and> lower_char c = c
               \<and> c \<noteq> CHR ''i'' \<and> c \<noteq> CHR ''n''"
    by (rule bspec)
  then show "c \<noteq> CHR '':''" "c \<noteq> CHR ''.''" "c \<noteq> CHR ''_''" "c \<noteq> CHR ''-''" "c \<noteq> CHR ''+''"
    "c \<noteq> CHR ''e''" "c \<noteq> CHR ''E''" "\<not> is_space c" "lower_char c = c"
    "c \<noteq> CHR ''i''" "c \<noteq> CHR ''n''"
    by blast+
qed

lemma digit_char_table:
  "list_all (\<lambda>n. is_digit (digit_char n) \<and> digit_val (digit_char n) = n) [0..<10]"
  by code_simp

lemma is_digit_digit_char: "n < 10 \<Longrightarrow> is_digit (digit_char n)"
  using digit_char_table by (simp add: list_all_iff)

lemma digit_val_digit_char: "n < 10 \<Longrightarrow> digit_val (digit_char n) = n"
  using digit_char_table by (simp add: list_all_iff)

lemma digits_of_digits: "list_all is_digit (digits_of n) \<and> digits_of n \<noteq> []"
proof (induction n rule: digits_of.induct)
  case (1 n)
  show ?case
  proof (cases "n < 10")
    case True
    then show ?thesis by (simp add: digits_of.simps [of n] is_digit_digit_char)
  next
    case False
    with 1 show ?thesis by (simp add: digits_of.simps [of n] is_digit_digit_char)
  qed
qed

lemma nat_of_digits_snoc: "nat_of_digits (ds @ [c]) = 10 * nat_of_digits ds + digit_val c"
  by (simp add: nat_of_digits_def)

lemma nat_of_digits_digits_of: "nat_of_digits (digits_of n) = n"
proof (induction n rule: digits_of.induct)
  case (1 n)
  show ?case
  proof (cases "n < 10")
    case True
    then show ?thesis
      by (simp add: digits_of.simps [of n] nat_of_digits_def digit_val_digit_char)
  next
    case False
    with 1 show ?thesis
      by (simp add: digits_of.simps [of n] nat_of_digits_snoc digit_val_digit_char)
  qed
qed

lemma length_digits_of: "n < 1000 \<Longrightarrow> length (digits_of n) \<le> 3"
  by (simp add: digits_of.simps [of n] digits_of.simps [of "n div 10"]
      digits_of.simps [of "n div 10 div 10"])

lemma nat_of_digits_zeros: "nat_of_digits (replicate j (CHR ''0'') @ ds) = nat_of_digits ds"
proof -
  have "foldl (\<lambda>a c. 10 * a + digit_val c) 0 (replicate j (CHR ''0'')) = 0"
    by (induction j) (simp_all add: digit_val_def)
  then show ?thesis by (simp add: nat_of_digits_def)
qed

lemma zero_pad_digits:
  assumes "list_all is_digit ds"
  shows "list_all is_digit (zero_pad w ds)"
proof -
  have z: "is_digit (CHR ''0'')" by (simp add: is_digit_def)
  have "list_all is_digit (replicate j (CHR ''0''))" for j
    by (induction j) (simp_all add: z)
  with assms show ?thesis by (simp add: zero_pad_def)
qed

lemma nat_of_digits_zero_pad: "nat_of_digits (zero_pad w ds) = nat_of_digits ds"
  by (simp add: zero_pad_def nat_of_digits_zeros)

lemma zero_pad_not_Nil: "ds \<noteq> [] \<Longrightarrow> zero_pad w ds \<noteq> []"
  by (simp add: zero_pad_def)

lemma digit_groups_digits:
  "ds \<noteq> [] \<Longrightarrow> list_all is_digit ds \<Longrightarrow> digit_groups ds = Some ds"
proof (induction ds rule: digit_groups.induct)
  case 1
  then show ?case by simp
next
  case (2 c)
  then show ?case by simp
next
  case (3 c d cs)
  then show ?case by (simp add: is_digit_facts(3))
qed

lemma dropWhile_hd: "s \<noteq> [] \<Longrightarrow> \<not> P (hd s) \<Longrightarrow> dropWhile P s = s"
  by (cases s) auto

lemma strip_id: "s \<noteq> [] \<Longrightarrow> \<not> is_space (hd s) \<Longrightarrow> \<not> is_space (last s) \<Longrightarrow> strip s = s"
  by (simp add: strip_def dropWhile_hd hd_rev)

lemma split_at_none: "list_all (\<lambda>c. \<not> P c) s \<Longrightarrow> split_at P s = (s, None)"
  by (induction s) auto

lemma split_at_first:
  "list_all (\<lambda>c. \<not> P c) a \<Longrightarrow> P c \<Longrightarrow> split_at P (a @ c # b) = (a, Some b)"
  by (induction a) auto

lemma split_colon_none: "CHR '':'' \<notin> set s \<Longrightarrow> split_colon s = [s]"
  by (induction s) auto

lemma split_colon_first:
  "CHR '':'' \<notin> set a \<Longrightarrow> split_colon (a @ CHR '':'' # b) = a # split_colon b"
  by (induction a) (auto split: list.splits)

text \<open>\<^verbatim>\<open>float\<close> on a string of digits with at most one point inside.\<close>

lemma float_of_str_plain:
  assumes u: "u \<noteq> []" and h: "is_digit (hd u)" and l: "is_digit (last u)"
    and a: "list_all (\<lambda>c. is_digit c \<or> c = CHR ''.'') u"
  shows "float_of_str u = (case mantissa_of u of None \<Rightarrow> Inl ValueError | Some r \<Rightarrow> Inr (Fin r))"
proof -
  from u obtain c cs where ucs: "u = c # cs" by (cases u) auto
  with h have c: "is_digit c" by simp
  have s: "strip u = u"
    using u h l by (simp add: strip_id is_digit_facts(8))
  have g: "split_sign u = (False, u)"
    using ucs is_digit_facts(4,5) [OF c] by simp
  have n1: "map lower_char u \<noteq> ''inf''" "map lower_char u \<noteq> ''infinity''" "map lower_char u \<noteq> ''nan''"
    using ucs is_digit_facts(9,10,11) [OF c] by auto
  have "list_all (\<lambda>c. \<not> (c = CHR ''e'' \<or> c = CHR ''E'')) u"
    using a by (auto simp: list_all_iff dest: is_digit_facts(6,7))
  then have e: "split_at (\<lambda>c. c = CHR ''e'' \<or> c = CHR ''E'') u = (u, None)"
    by (rule split_at_none)
  show ?thesis
    by (simp add: float_of_str_def s g n1 decimal_of_def e split: option.splits)
qed

lemma mantissa_of_digits:
  assumes "ip \<noteq> []" "list_all is_digit ip"
  shows "mantissa_of ip = Some (of_nat (nat_of_digits ip))"
proof -
  have "list_all (\<lambda>c. \<not> c = CHR ''.'') ip"
    using assms(2) by (auto simp: list_all_iff dest: is_digit_facts(2))
  then have "split_at (\<lambda>c. c = CHR ''.'') ip = (ip, None)" by (rule split_at_none)
  then show ?thesis by (simp add: mantissa_of_def digit_groups_digits [OF assms])
qed

lemma mantissa_of_point:
  assumes "ip \<noteq> []" "list_all is_digit ip" "fp \<noteq> []" "list_all is_digit fp"
  shows "mantissa_of (ip @ CHR ''.'' # fp)
     = Some (of_nat (nat_of_digits ip) + of_nat (nat_of_digits fp) / 10 ^ length fp)"
proof -
  have "list_all (\<lambda>c. \<not> c = CHR ''.'') ip"
    using assms(2) by (auto simp: list_all_iff dest: is_digit_facts(2))
  then have "split_at (\<lambda>c. c = CHR ''.'') (ip @ CHR ''.'' # fp) = (ip, Some fp)"
    by (rule split_at_first) simp
  then show ?thesis
    using assms(1,3)
    by (simp add: mantissa_of_def digit_groups_digits [OF assms(1,2)] digit_groups_digits [OF assms(3,4)])
qed

lemma float_of_str_digits:
  assumes "ip \<noteq> []" "list_all is_digit ip"
  shows "float_of_str ip = Inr (Fin (of_nat (nat_of_digits ip)))"
proof -
  have "is_digit (hd ip)" "is_digit (last ip)"
    using assms by (auto simp: list_all_iff)
  moreover have "list_all (\<lambda>c. is_digit c \<or> c = CHR ''.'') ip"
    using assms(2) by (auto simp: list_all_iff)
  ultimately show ?thesis
    using float_of_str_plain [OF assms(1)] by (simp add: mantissa_of_digits [OF assms])
qed

lemma float_of_str_point:
  assumes "ip \<noteq> []" "list_all is_digit ip" "fp \<noteq> []" "list_all is_digit fp"
  shows "float_of_str (ip @ CHR ''.'' # fp)
     = Inr (Fin (of_nat (nat_of_digits ip) + of_nat (nat_of_digits fp) / 10 ^ length fp))"
proof -
  let ?u = "ip @ CHR ''.'' # fp"
  have "is_digit (hd ?u)" using assms(1,2) by (cases ip) auto
  moreover have "is_digit (last ?u)" using assms(3,4) by (auto simp: list_all_iff)
  moreover have "list_all (\<lambda>c. is_digit c \<or> c = CHR ''.'') ?u"
    using assms(2,4) by (auto simp: list_all_iff)
  ultimately show ?thesis
    using float_of_str_plain [of ?u] by (simp add: mantissa_of_point [OF assms])
qed

lemma float_of_format_02d: "float_of_str (format_02d (int h)) = Inr (Fin (of_nat h))"
proof -
  have "format_02d (int h) = zero_pad 2 (digits_of h)" by (simp add: format_02d_def)
  moreover have "zero_pad 2 (digits_of h) \<noteq> []" "list_all is_digit (zero_pad 2 (digits_of h))"
    using digits_of_digits [of h] by (simp_all add: zero_pad_not_Nil zero_pad_digits)
  ultimately show ?thesis
    by (simp add: float_of_str_digits nat_of_digits_zero_pad nat_of_digits_digits_of)
qed

lemma format_02d_no_colon: "CHR '':'' \<notin> set (format_02d (int h))"
proof -
  have "list_all is_digit (zero_pad 2 (digits_of h))"
    using digits_of_digits [of h] by (simp add: zero_pad_digits)
  then show ?thesis
    by (auto simp: format_02d_def list_all_iff dest: is_digit_facts(1))
qed

lemma round_half_even_of_nat: "round_half_even (of_nat k) = int k"
  by (simp add: round_half_even_def Let_def)

text \<open>The seconds field of a duration that is a whole number of milliseconds.\<close>

lemma format_06_3f_ms:
  "\<exists>ip fp. format_06_3f (of_nat k / 1000) = ip @ CHR ''.'' # fp
     \<and> ip \<noteq> [] \<and> list_all is_digit ip \<and> fp \<noteq> [] \<and> list_all is_digit fp
     \<and> nat_of_digits ip = k div 1000 \<and> nat_of_digits fp = k mod 1000 \<and> length fp = 3"
proof -
  let ?body = "digits_of (k div 1000) @ CHR ''.'' # zero_pad 3 (digits_of (k mod 1000))"
  let ?ip = "replicate (6 - length ?body) (CHR ''0'') @ digits_of (k div 1000)"
  let ?fp = "zero_pad 3 (digits_of (k mod 1000))"
  have "\<bar>(of_nat k / 1000 :: rat)\<bar> * 1000 = of_nat k" by simp
  then have n: "nat (round_half_even (\<bar>(of_nat k / 1000 :: rat)\<bar> * 1000)) = k"
    by (simp only: round_half_even_of_nat nat_int)
  have "\<not> (of_nat k / 1000 :: rat) < 0" by simp
  then have f: "format_06_3f (of_nat k / 1000) = ?ip @ CHR ''.'' # ?fp"
    unfolding format_06_3f_def Let_def n by (simp add: zero_pad_def)
  have z: "is_digit (CHR ''0'')" by (simp add: is_digit_def)
  have zs: "list_all is_digit (replicate j (CHR ''0''))" for j
    by (induction j) (simp_all add: z)
  have 1: "?ip \<noteq> []" using digits_of_digits [of "k div 1000"] by simp
  have 2: "list_all is_digit ?ip" using digits_of_digits [of "k div 1000"] zs by simp
  have 3: "?fp \<noteq> []" using digits_of_digits [of "k mod 1000"] by (simp add: zero_pad_not_Nil)
  have 4: "list_all is_digit ?fp" using digits_of_digits [of "k mod 1000"] by (simp add: zero_pad_digits)
  have 5: "nat_of_digits ?ip = k div 1000" by (simp add: nat_of_digits_zeros nat_of_digits_digits_of)
  have 6: "nat_of_digits ?fp = k mod 1000" by (simp add: nat_of_digits_zero_pad nat_of_digits_digits_of)
  have "length (digits_of (k mod 1000)) \<le> 3" by (rule length_digits_of) simp
  then have 7: "length ?fp = 3" by (simp add: zero_pad_def)
  from f 1 2 3 4 5 6 7 show ?thesis by blast
qed

lemma float_of_format_06_3f:
  "float_of_str (format_06_3f (of_nat k / 1000)) = Inr (Fin (of_nat k / 1000))"
    and format_06_3f_no_colon: "CHR '':'' \<notin> set (format_06_3f (of_nat k / 1000))"
proof -
  from format_06_3f_ms [of k] obtain ip fp where
    f: "format_06_3f (of_nat k / 1000) = ip @ CHR ''.'' # fp"
    and d: "ip \<noteq> []" "list_all is_digit ip" "fp \<noteq> []" "list_all is_digit fp"
    and v: "nat_of_digits ip = k div 1000" "nat_of_digits fp = k mod 1000" "length fp = 3"
    by blast
  have "(of_nat (k div 1000) + of_nat (k mod 1000) / 10 ^ 3 :: rat) = of_nat k / 1000"
  proof -
    have "(of_nat k :: rat) = of_nat (1000 * (k div 1000) + k mod 1000)" by simp
    also have "\<dots> = 1000 * of_nat (k div 1000) + of_nat (k mod 1000)"
      by (simp only: of_nat_add of_nat_mult of_nat_numeral)
    finally show ?thesis by simp
  qed
  then show "float_of_str (format_06_3f (of_nat k / 1000)) = Inr (Fin (of_nat k / 1000))"
    using float_of_str_point [OF d] by (simp add: f v)
  show "CHR '':'' \<notin> set (format_06_3f (of_nat k / 1000))"
    using d(2,4) by (auto simp: f list_all_iff dest: is_digit_facts(1))
qed

lemma floor_ms_hours: "\<lfloor>(of_nat ms / 1000 :: rat) / 3600\<rfloor> = int (ms div 3600000)"
proof -
  have "(of_nat ms / 1000 :: rat) / 3600 = of_nat ms / of_nat 3600000" by simp
  then show ?thesis by (simp only: floor_divide_of_nat_eq)
qed

lemma fl_mod_ms: "fl_mod (of_nat ms / 1000) (of_nat q) = of_nat (ms mod (1000 * q)) / 1000" if "0 < q"
proof -
  have "(of_nat ms / 1000 :: rat) / of_nat q = of_nat ms / of_nat (1000 * q)" by simp
  then have fl: "\<lfloor>(of_nat ms / 1000 :: rat) / of_nat q\<rfloor> = int (ms div (1000 * q))"
    by (simp only: floor_divide_of_nat_eq)
  have "(of_nat ms :: rat) = of_nat ((1000 * q) * (ms div (1000 * q)) + ms mod (1000 * q))" by simp
  also have "\<dots> = 1000 * of_nat q * of_nat (ms div (1000 * q)) + of_nat (ms mod (1000 * q))"
    by (simp only: of_nat_add of_nat_mult of_nat_numeral)
  finally have "(of_nat ms :: rat) = 1000 * of_nat q * of_nat (ms div (1000 * q)) + of_nat (ms mod (1000 * q))" .
  then show ?thesis
    unfolding fl_mod_def fl by (simp add: field_simps)
qed

lemma floor_ms: "\<lfloor>(of_nat ms / 1000 :: rat) / of_nat q\<rfloor> = int (ms div (1000 * q))"
proof -
  have "(of_nat ms / 1000 :: rat) / of_nat q = of_nat ms / of_nat (1000 * q)" by simp
  then show ?thesis by (simp only: floor_divide_of_nat_eq)
qed

lemma convert_duration_to_str_ms:
  assumes "0 < ms"
  shows "convert_duration_to_str (Fin (of_nat ms / 1000))
     = Inr (format_02d (int (ms div 3600000)) @ CHR '':''
           # format_02d (int (ms mod 3600000 div 60000)) @ CHR '':''
           # format_06_3f (of_nat (ms mod 60000) / 1000))"
proof -
  have nz: "(of_nat ms / 1000 :: rat) \<noteq> 0" using assms by simp
  have h: "\<lfloor>(of_nat ms / 1000 :: rat) / 3600\<rfloor> = int (ms div 3600000)"
    using floor_ms [of ms 3600] by simp
  have m1: "fl_mod (of_nat ms / 1000) 3600 = of_nat (ms mod 3600000) / 1000"
    using fl_mod_ms [of 3600 ms] by simp
  have m: "\<lfloor>fl_mod (of_nat ms / 1000) 3600 / 60\<rfloor> = int (ms mod 3600000 div 60000)"
    unfolding m1 using floor_ms [of "ms mod 3600000" 60] by simp
  have s: "fl_mod (of_nat ms / 1000) 60 = of_nat (ms mod 60000) / 1000"
    using fl_mod_ms [of 60 ms] by simp
  show ?thesis
    unfolding convert_duration_to_str.simps Let_def h m s using nz by simp
qed

lemma convert_duration_to_sec_parts:
  assumes "CHR '':'' \<notin> set a" "CHR '':'' \<notin> set b" "CHR '':'' \<notin> set c"
    and "float_of_str a = Inr (Fin x)" "float_of_str b = Inr (Fin y)" "float_of_str c = Inr (Fin z)"
  shows "convert_duration_to_sec (PStr (a @ CHR '':'' # b @ CHR '':'' # c))
     = Inr (PFloat (Fin (x * 3600 + y * 60 + z)))"
proof -
  have "split_colon (a @ CHR '':'' # b @ CHR '':'' # c) = [a, b, c]"
    using assms(1,2,3) by (simp add: split_colon_first split_colon_none)
  then show ?thesis
    using assms(4,5,6) by (simp add: convert_duration_to_sec_def)
qed

lemma ms_decomposition:
  "(of_nat (ms div 3600000) * 3600 + of_nat (ms mod 3600000 div 60000) * 60
     + of_nat (ms mod 60000) / 1000 :: rat) = of_nat ms / 1000"
proof -
  have k: "ms mod 3600000 mod 60000 = ms mod 60000"
    by (rule mod_mod_cancel) simp
  have "ms = 3600000 * (ms div 3600000) + ms mod 3600000" by simp
  also have "ms mod 3600000 = 60000 * (ms mod 3600000 div 60000) + ms mod 3600000 mod 60000"
    by simp
  finally have "ms = 3600000 * (ms div 3600000) + (60000 * (ms mod 3600000 div 60000) + ms mod 60000)"
    by (simp only: k)
  then have "(of_nat ms :: rat)
      = of_nat (3600000 * (ms div 3600000) + (60000 * (ms mod 3600000 div 60000) + ms mod 60000))"
    by simp
  also have "\<dots> = 3600000 * of_nat (ms div 3600000) + (60000 * of_nat (ms mod 3600000 div 60000)
      + of_nat (ms mod 60000))"
    by (simp only: of_nat_add of_nat_mult of_nat_numeral)
  finally show ?thesis by simp
qed

lemma duration_round_trip_ms:
  "\<exists>s. convert_duration_to_str (Fin (of_nat ms / 1000)) = Inr s
     \<and> convert_duration_to_sec (PStr s) = Inr (PFloat (Fin (of_nat ms / 1000)))"
proof (cases "ms = 0")
  case True
  have "convert_duration_to_sec (PStr ''00:00:00.000'') = Inr (PFloat (Fin 0))"
    by code_simp
  with True show ?thesis by simp
next
  case False
  then have pos: "0 < ms" by simp
  let ?a = "format_02d (int (ms div 3600000))"
  let ?b = "format_02d (int (ms mod 3600000 div 60000))"
  let ?c = "format_06_3f (of_nat (ms mod 60000) / 1000)"
  have "convert_duration_to_sec (PStr (?a @ CHR '':'' # ?b @ CHR '':'' # ?c))
     = Inr (PFloat (Fin (of_nat (ms div 3600000) * 3600 + of_nat (ms mod 3600000 div 60000) * 60
          + of_nat (ms mod 60000) / 1000)))"
    by (rule convert_duration_to_sec_parts)
      (rule format_02d_no_colon format_06_3f_no_colon float_of_format_02d float_of_format_06_3f)+
  then show ?thesis
    using convert_duration_to_str_ms [OF pos] by (simp only: ms_decomposition) blast
qed

section \<open>The claims on the format record and on the language of a track\<close>




text \<open>
  Claim C4, at three streams whose tags carry a language that the table knows. The
  audio and the subtitle extractor look for the key \<^verbatim>\<open>language\<close> in the stream itself and
  find none, so the language is \<open>Unknown\<close>; the video extractor reads it from the tags.
\<close>

theorem audio_subtitle_language_ignores_tags:
  "map_sum id at_language (extract_audio_info example_runtime example_audio_1) = Inr (PStr ''Unknown'')
   \<and> map_sum id st_language (extract_subtitle_info example_runtime example_subtitle_1) = Inr (PStr ''Unknown'')
   \<and> map_sum id vt_language (extract_video_info example_runtime example_video_1) = Inr (PStr ''English'')"
  by code_simp

section \<open>The claim on the frame rate\<close>




section \<open>The claim on the failures of the probe\<close>




section \<open>Properties of the catalog\<close>

lemma map_of_upt_fresh:
  assumes "map fst data = [1..<Suc n]"
  shows "map_of data (Suc n) = None"
proof -
  have "Suc n \<notin> fst ` set data"
    using assms by (metis atLeastLessThan_iff lessI less_irrefl_nat list.set_map set_upt)
  then show ?thesis by (simp add: map_of_eq_None_iff)
qed

lemma get_media_info_loop_Inr:
  assumes "get_media_info_loop rt w debug files extracted data st = Inr (data', st')"
    and "str_keyed st"
    and "map fst data = [1..<Suc extracted]"
    and "list_all (\<lambda>kv. snd kv < length (heap st)) data"
  shows "map fst data' = [1..<Suc (extracted + length (filter (\<lambda>f. path_suffix f = ''.mkv'') files))]
       \<and> map (\<lambda>kv. map_option mi_file_path (heap_get st' (snd kv))) data'
           = map (\<lambda>kv. map_option mi_file_path (heap_get st (snd kv))) data
             @ map Some (filter (\<lambda>f. path_suffix f = ''.mkv'') files)
       \<and> probed st' = probed st @ filter (\<lambda>f. path_suffix f = ''.mkv'') files"
  using assms
proof (induction files arbitrary: extracted data st)
  case Nil
  then show ?case by simp
next
  case (Cons x xs)
  show ?case
  proof (cases "path_suffix x = ''.mkv''")
    case False
    with Cons.prems(1) have "get_media_info_loop rt w debug xs extracted data st = Inr (data', st')"
      by simp
    from Cons.IH [OF this Cons.prems(2,3,4)] False show ?thesis by simp
  next
    case True
    with Cons.prems(1) obtain obj st1 where
      m: "MediaInfo rt w x debug st = Inr (obj, st1)"
      and l: "get_media_info_loop rt w debug xs (Suc extracted) (assoc_set data (Suc extracted) obj) st1
              = Inr (data', st')"
      by (auto simp: ebind_Inr_iff)
    note mi = MediaInfo_Inr [OF Cons.prems(2) m]
    have d1: "assoc_set data (Suc extracted) obj = data @ [(Suc extracted, obj)]"
      by (rule assoc_set_fresh) (rule map_of_upt_fresh [OF Cons.prems(3)])
    have k1: "map fst (data @ [(Suc extracted, obj)]) = [1..<Suc (Suc extracted)]"
      using Cons.prems(3) by simp
    have a1: "list_all (\<lambda>kv. snd kv < length (heap st1)) (data @ [(Suc extracted, obj)])"
      using Cons.prems(4) mi(1,2) by (auto simp: list_all_iff)
    from Cons.IH [OF l [unfolded d1] mi(4) k1 a1]
    have r1: "map fst data' = [1..<Suc (Suc extracted + length (filter (\<lambda>f. path_suffix f = ''.mkv'') xs))]"
      and r2: "map (\<lambda>kv. map_option mi_file_path (heap_get st' (snd kv))) data'
           = map (\<lambda>kv. map_option mi_file_path (heap_get st1 (snd kv))) (data @ [(Suc extracted, obj)])
             @ map Some (filter (\<lambda>f. path_suffix f = ''.mkv'') xs)"
      and r3: "probed st' = probed st1 @ filter (\<lambda>f. path_suffix f = ''.mkv'') xs"
      by blast+
    have old: "map (\<lambda>kv. map_option mi_file_path (heap_get st1 (snd kv))) data
             = map (\<lambda>kv. map_option mi_file_path (heap_get st (snd kv))) data"
      using Cons.prems(4) mi(6) by (auto simp: list_all_iff)
    from mi(5) have new: "map_option mi_file_path (heap_get st1 obj) = Some x"
      by auto
    show ?thesis
      using True r1 r2 r3 old new mi(3) by simp
  qed
qed

text \<open>
  Claim C7. In a state whose keys of \<^verbatim>\<open>_files\<close> are strings, a catalog assembly that
  returns has probed the discovered files with the suffix \<open>.mkv\<close>, in discovery order,
  and no other file; the keys of the catalog are 1, 2, ... up to the number of those
  files, and the record at key \<open>i\<close> is the object made for the \<open>i\<close>-th of them. A list of
  files without that suffix gives the empty catalog and leaves the state as it is.
\<close>

theorem catalog_only_mkv:
  "(str_keyed st \<and> get_media_info rt w debug files st = Inr (data, st') \<longrightarrow>
      map fst data = [1..<Suc (length (filter (\<lambda>f. path_suffix f = ''.mkv'') files))]
    \<and> map (\<lambda>kv. map_option mi_file_path (heap_get st' (snd kv))) data
        = map Some (filter (\<lambda>f. path_suffix f = ''.mkv'') files)
    \<and> probed st' = probed st @ filter (\<lambda>f. path_suffix f = ''.mkv'') files)
   \<and> (filter (\<lambda>f. path_suffix f = ''.mkv'') files = [] \<longrightarrow>
        get_media_info rt w debug files st = Inr ([], st))"
proof (intro conjI impI)
  assume a: "str_keyed st \<and> get_media_info rt w debug files st = Inr (data, st')"
  then have l: "get_media_info_loop rt w debug files 0 [] st = Inr (data, st')" and k: "str_keyed st"
    by (simp_all add: get_media_info_def)
  from get_media_info_loop_Inr [OF l k]
  have r: "map fst data = [1..<Suc (0 + length (filter (\<lambda>f. path_suffix f = ''.mkv'') files))]
       \<and> map (\<lambda>kv. map_option mi_file_path (heap_get st' (snd kv))) data
           = map (\<lambda>kv. map_option mi_file_path (heap_get st (snd kv))) []
             @ map Some (filter (\<lambda>f. path_suffix f = ''.mkv'') files)
       \<and> probed st' = probed st @ filter (\<lambda>f. path_suffix f = ''.mkv'') files"
    by simp
  from r show "map fst data = [1..<Suc (length (filter (\<lambda>f. path_suffix f = ''.mkv'') files))]"
    by simp
  from r show "map (\<lambda>kv. map_option mi_file_path (heap_get st' (snd kv))) data
        = map Some (filter (\<lambda>f. path_suffix f = ''.mkv'') files)"
    by simp
  from r show "probed st' = probed st @ filter (\<lambda>f. path_suffix f = ''.mkv'') files"
    by simp
next
  assume "filter (\<lambda>f. path_suffix f = ''.mkv'') files = []"
  then have "get_media_info_loop rt w debug files n d st = Inr (d, st)" for n d
    by (induction files) (auto split: if_splits)
  then show "get_media_info rt w debug files st = Inr ([], st)"
    by (simp add: get_media_info_def)
qed

theorem catalog_only_mkv_witness:
  "map_sum id (\<lambda>r. (fst r, probed (snd r),
                     map (\<lambda>kv. map_option mi_file_path (heap_get (snd r) (snd kv))) (fst r)))
     (get_media_info example_runtime example_world False
        [[''a.mkv''], [''notes.txt''], [''b.mkv'']] initial_state)
   = Inr ([(1, 0), (2, 1)], [[''a.mkv''], [''b.mkv'']], [Some [''a.mkv''], Some [''b.mkv'']])"
proof -
  have k: "str_keyed initial_state"
    by (simp add: str_keyed_def initial_state_def)
  obtain data st' where
    g: "get_media_info example_runtime example_world False
          [[''a.mkv''], [''notes.txt''], [''b.mkv'']] initial_state = Inr (data, st')"
    and d: "data = [(1, 0), (2, 1)]"
  proof -
    have "map_sum id fst (get_media_info example_runtime example_world False
          [[''a.mkv''], [''notes.txt''], [''b.mkv'']] initial_state) = Inr [(1, 0), (2, 1)]"
      by code_simp
    then show ?thesis
      by (cases "get_media_info example_runtime example_world False
          [[''a.mkv''], [''notes.txt''], [''b.mkv'']] initial_state") (auto intro: that)
  qed
  have f: "filter (\<lambda>f. path_suffix f = ''.mkv'') [[''a.mkv''], [''notes.txt''], [''b.mkv'']]
      = [[''a.mkv''], [''b.mkv'']]"
    by (simp add: path_suffix_def path_name_def)
  have p0: "probed initial_state = []" by (simp add: initial_state_def)
  from catalog_only_mkv [of initial_state example_runtime example_world False
      "[[''a.mkv''], [''notes.txt''], [''b.mkv'']]" data st', THEN conjunct1, rule_format] k g
  have "map (\<lambda>kv. map_option mi_file_path (heap_get st' (snd kv))) data
        = map Some (filter (\<lambda>f. path_suffix f = ''.mkv'') [[''a.mkv''], [''notes.txt''], [''b.mkv'']])
    \<and> probed st' = probed initial_state
        @ filter (\<lambda>f. path_suffix f = ''.mkv'') [[''a.mkv''], [''notes.txt''], [''b.mkv'']]"
    by blast
  with g d f p0 show ?thesis by simp
qed

section \<open>The claim on the reuse of objects\<close>

text \<open>
  In a state whose keys of \<^verbatim>\<open>_files\<close> are strings, two constructions for one path that
  return give two different objects, probe the file twice and add the size of each
  object to the counter.
\<close>

lemma construct_twice_Inr:
  assumes k: "str_keyed st" and c: "construct_twice rt w p debug st = Inr (first, second, st')"
  shows "second \<noteq> first"
    and "probed st' = probed st @ [p, p]"
    and "\<exists>n m. cls_total_file_size st' = cls_total_file_size st + n + m
           \<and> (\<exists>obj. heap_get st' first = Some obj \<and> fd_size (mi_format_data obj) = n)
           \<and> (\<exists>obj. heap_get st' second = Some obj \<and> fd_size (mi_format_data obj) = m)"
proof -
  from c obtain st1 where
    c1: "MediaInfo rt w p debug st = Inr (first, st1)"
    and c2: "MediaInfo rt w p debug st1 = Inr (second, st')"
    by (auto simp: construct_twice_def ebind_Inr_iff)
  note m1 = MediaInfo_Inr [OF k c1]
  note m2 = MediaInfo_Inr [OF m1(4) c2]
  from m1(1,2) m2(1) show "second \<noteq> first" by simp
  from m1(3) m2(3) show "probed st' = probed st @ [p, p]" by simp
  from m1(7) obtain n obj1 where n: "cls_total_file_size st1 = cls_total_file_size st + n"
    and o1: "heap_get st1 first = Some obj1" "fd_size (mi_format_data obj1) = n"
    by blast
  from m2(7) obtain m obj2 where m: "cls_total_file_size st' = cls_total_file_size st1 + m"
    and o2: "heap_get st' second = Some obj2" "fd_size (mi_format_data obj2) = m"
    by blast
  from m1(1,2) m2(6) o1 have "heap_get st' first = Some obj1" by simp
  with n m o1 o2 show "\<exists>n m. cls_total_file_size st' = cls_total_file_size st + n + m
           \<and> (\<exists>obj. heap_get st' first = Some obj \<and> fd_size (mi_format_data obj) = n)
           \<and> (\<exists>obj. heap_get st' second = Some obj \<and> fd_size (mi_format_data obj) = m)"
    by auto
qed

text \<open>
  Claim C1, at the path \<open>movie.mkv\<close> in a new process: the second construction returns
  another object (address 1, not 0), the file has been probed twice, and its 1000 bytes
  have been added to the counter twice.
\<close>

theorem second_construction_builds_new_object:
  "map_sum id (\<lambda>r. (fst r, fst (snd r), probed (snd (snd r)), cls_total_file_size (snd (snd r))))
     (construct_twice example_runtime example_world [''movie.mkv''] False initial_state)
   = Inr (0, 1, [[''movie.mkv''], [''movie.mkv'']], 2000)"
  by code_simp

section \<open>The claim on the duration formats\<close>

text \<open>
  Claim C9. Formatting 3723.456 seconds gives \<open>01:02:03.456\<close>, and parsing that string
  gives 3723.456 seconds back. The same holds for every duration that is a whole number
  of milliseconds: parsing the formatted duration returns the duration. (Finite floats
  are exact rationals here, so the tolerance of the claim is 0.)
\<close>

theorem duration_round_trip:
  "convert_duration_to_str (Fin (3723456 / 1000)) = Inr ''01:02:03.456''
   \<and> convert_duration_to_sec (PStr ''01:02:03.456'') = Inr (PFloat (Fin (3723456 / 1000)))
   \<and> (\<forall>ms::nat. \<exists>s. convert_duration_to_str (Fin (of_nat ms / 1000)) = Inr s
          \<and> convert_duration_to_sec (PStr s) = Inr (PFloat (Fin (of_nat ms / 1000))))"
proof (intro conjI allI)
  show "convert_duration_to_str (Fin (3723456 / 1000)) = Inr ''01:02:03.456''"
    by code_simp
  show "convert_duration_to_sec (PStr ''01:02:03.456'') = Inr (PFloat (Fin (3723456 / 1000)))"
    by code_simp
  show "\<exists>s. convert_duration_to_str (Fin (of_nat ms / 1000)) = Inr s
          \<and> convert_duration_to_sec (PStr s) = Inr (PFloat (Fin (of_nat ms / 1000)))" for ms :: nat
    by (rule duration_round_trip_ms)
qed

theorem duration_round_trip_witness:
  "convert_duration_to_str (Fin (1500 / 1000)) = Inr ''00:00:01.500''
   \<and> convert_duration_to_sec (PStr ''00:00:01.500'') = Inr (PFloat (Fin (1500 / 1000)))"
proof -
  have a: "convert_duration_to_str (Fin (1500 / 1000)) = Inr ''00:00:01.500''"
    by code_simp
  from duration_round_trip [THEN conjunct2, THEN conjunct2, THEN spec, of 1500]
  obtain s where "convert_duration_to_str (Fin (of_nat 1500 / 1000)) = Inr s"
    and "convert_duration_to_sec (PStr s) = Inr (PFloat (Fin (of_nat 1500 / 1000)))"
    by blast
  with a show ?thesis by simp
qed

end
